theory Spec2Isabelle
  imports Complex_Main
begin

section \<open>Values crossing the HTTP boundary\<close>

text \<open>
  Request bodies and response bodies are JSON. An object is an association list of its
  fields in insertion order, with distinct keys; a field that is absent reads as
  JavaScript's \<open>undefined\<close>, which is modelled by \<open>None\<close> wherever a value may be
  missing.
\<close>

datatype json =
    JNull
  | JBool bool
  | JNum int
  | JStr string
  | JArr "json list"
  | JObj "(string \<times> json) list"

fun field :: "string \<Rightarrow> json \<Rightarrow> json option" where
  "field k (JObj fs) = map_of fs k"
| "field k _ = None"

text \<open>JavaScript truthiness of a possibly undefined value (\<open>if (x)\<close>, \<open>!x\<close>, \<open>x || y\<close>).\<close>

fun truthy :: "json option \<Rightarrow> bool" where
  "truthy None = False"
| "truthy (Some JNull) = False"
| "truthy (Some (JBool b)) = b"
| "truthy (Some (JNum n)) = (n \<noteq> 0)"
| "truthy (Some (JStr s)) = (s \<noteq> [])"
| "truthy (Some (JArr _)) = True"
| "truthy (Some (JObj _)) = True"

text \<open>Truthiness of a \<open>string | undefined\<close>: the empty string is falsy.\<close>

fun truthy_str :: "string option \<Rightarrow> bool" where
  "truthy_str None = False"
| "truthy_str (Some s) = (s \<noteq> [])"

section \<open>exceptions/HttpException.ts and its subclasses\<close>

datatype ErrorCode =
    USER_NOT_FOUND
  | USER_ALREADY_EXISTS
  | INCORRECT_PASSWORD
  | USER_TASK_LIST_NOT_FOUND
  | USER_TASK_NOT_FOUND
  | UNPROCESSABLE_ENTITY
  | INTERNAL_EXCEPTION
  | UNAUTHORIZED
  | VALIDATION_ERROR
  | TOKEN_NOT_FOUND
  | SELF_DEMOTION

fun errorCode_num :: "ErrorCode \<Rightarrow> int" where
  "errorCode_num USER_NOT_FOUND = 1001"
| "errorCode_num USER_ALREADY_EXISTS = 1002"
| "errorCode_num INCORRECT_PASSWORD = 1003"
| "errorCode_num USER_TASK_LIST_NOT_FOUND = 1004"
| "errorCode_num USER_TASK_NOT_FOUND = 1005"
| "errorCode_num UNPROCESSABLE_ENTITY = 2001"
| "errorCode_num INTERNAL_EXCEPTION = 3001"
| "errorCode_num UNAUTHORIZED = 4001"
| "errorCode_num VALIDATION_ERROR = 5002"
| "errorCode_num TOKEN_NOT_FOUND = 6001"
| "errorCode_num SELF_DEMOTION = 7001"

text \<open>
  Values that are thrown without being an \<open>HttpException\<close> or a \<open>ZodError\<close>: a rejection
  of the Prisma client (identified by its error code or class name), or a plain
  \<open>Error\<close> (identified by its message).
\<close>

datatype fault = PrismaFault string | PlainError string

text \<open>A Zod issue, reduced to what \<open>ValidationException\<close> keeps: the joined path and the message.\<close>

type_synonym issue = "string \<times> string"

text \<open>
  The \<open>_errors\<close> member is typed \<open>any\<close>. The values it takes in this code base are:
  \<open>undefined\<close> (argument omitted), \<open>null\<close>, the formatted issue list of a validation
  failure, and the caught error object handed to \<open>InternalException\<close>.
\<close>

datatype err_detail = Undefined | Null | Fields "issue list" | Cause fault

record HttpException =
  e_message :: string
  e_statusCode :: nat
  e_errorCode :: ErrorCode
  e_errors :: err_detail

definition UnauthorizedException :: "string \<Rightarrow> ErrorCode \<Rightarrow> HttpException" where
  "UnauthorizedException m c =
     \<lparr>e_message = m, e_statusCode = 401, e_errorCode = c, e_errors = Undefined\<rparr>"

definition ValidationException :: "issue list \<Rightarrow> HttpException" where
  "ValidationException issues =
     \<lparr>e_message = ''Validation failed'', e_statusCode = 400,
      e_errorCode = VALIDATION_ERROR, e_errors = Fields issues\<rparr>"

text \<open>
  Modelled from the spec: the class files \<open>BadRequestException.ts\<close>,
  \<open>NotFoundException.ts\<close> and \<open>InternalException.ts\<close> are imported by the controllers but
  are not among the sources. The three constructors below are the ones printed in
  \<open>docs/middleware.md\<close> (\<open>super(message, errorCode, 400, null)\<close>,
  \<open>super(message, errorCode, 404, null)\<close>, \<open>super(message, errorCode, 500, errors)\<close>);
  they agree with the status classes of the specification's interface table.
\<close>

definition BadRequestException :: "string \<Rightarrow> ErrorCode \<Rightarrow> HttpException" where
  "BadRequestException m c =
     \<lparr>e_message = m, e_statusCode = 400, e_errorCode = c, e_errors = Null\<rparr>"

definition NotFoundException :: "string \<Rightarrow> ErrorCode \<Rightarrow> HttpException" where
  "NotFoundException m c =
     \<lparr>e_message = m, e_statusCode = 404, e_errorCode = c, e_errors = Null\<rparr>"

definition InternalException :: "string \<Rightarrow> err_detail \<Rightarrow> ErrorCode \<Rightarrow> HttpException" where
  "InternalException m errors c =
     \<lparr>e_message = m, e_statusCode = 500, e_errorCode = c, e_errors = errors\<rparr>"

text \<open>What a handler can throw (a rejected promise of the \<open>async\<close> function).\<close>

datatype thrown = ThrownHttp HttpException | ThrownZod "issue list" | ThrownFault fault

section \<open>The relational store behind the Prisma client\<close>

text \<open>
  The rows of the \<open>User\<close> and \<open>Token\<close> tables as the code reads and writes them. The
  \<open>createdAt\<close>/\<open>updatedAt\<close> timestamps are never read by the code and are left
  out. Primary keys come from an auto-increment counter per table.
\<close>

record User =
  u_id :: int
  u_name :: string
  u_email :: string
  u_password :: string
  u_role :: string
  u_delete :: bool

record Token =
  t_id :: int
  t_key :: string
  t_userId :: int
  t_active :: bool

record database =
  users :: "User list"
  tokens :: "Token list"
  next_user_id :: int
  next_token_id :: int

text \<open>
  An \<open>Int\<close> argument of a query that arrives as a JavaScript number: the query engine
  fits a number with a fraction into the integer column by dropping the fraction (an
  \<open>id\<close> of \<open>1.5\<close> selects the row with id 1); \<open>NaN\<close> and the infinities cannot be
  sent as a number and the client rejects the query.
\<close>

definition db_int_arg :: "rat option \<Rightarrow> fault + int" where
  "db_int_arg n =
     (case n of
        None \<Rightarrow> Inl (PrismaFault ''PrismaClientValidationError'')
      | Some q \<Rightarrow> Inr (if 0 \<le> q then \<lfloor>q\<rfloor> else \<lceil>q\<rceil>))"

text \<open>
  \<open>db.user.findFirst({ where: { id } })\<close> and the other \<open>findFirst\<close> calls return the
  first matching row or \<open>null\<close>.
\<close>

definition db_user_findFirst :: "database \<Rightarrow> (User \<Rightarrow> bool) \<Rightarrow> User option" where
  "db_user_findFirst d P = find P (users d)"

text \<open>
  \<open>db.user.create\<close>: the column \<open>email\<close> is \<open>@unique\<close>, so inserting a second row with
  an e-mail already present (whatever its soft-delete flag) is rejected with Prisma's
  unique-constraint error P2002. The \<open>delete\<close> column defaults to \<open>false\<close>.
\<close>

record user_data =
  d_name :: string
  d_email :: string
  d_password :: string
  d_role :: string

definition db_user_create :: "database \<Rightarrow> user_data \<Rightarrow> fault + (User \<times> database)" where
  "db_user_create d x =
     (if \<exists>u \<in> set (users d). u_email u = d_email x then Inl (PrismaFault ''P2002'')
      else
        let row = \<lparr>u_id = next_user_id d, u_name = d_name x, u_email = d_email x,
                   u_password = d_password x, u_role = d_role x, u_delete = False\<rparr>
        in Inr (row, d\<lparr>users := users d @ [row], next_user_id := next_user_id d + 1\<rparr>))"

text \<open>
  \<open>db.user.update({ where: { id }, data })\<close>: rejects with P2025 when no row has the id and
  with P2002 when the new e-mail belongs to another row; otherwise it rewrites the row
  and returns it.
\<close>

definition db_user_update ::
  "database \<Rightarrow> int \<Rightarrow> (User \<Rightarrow> User) \<Rightarrow> fault + (User \<times> database)" where
  "db_user_update d i f =
     (case find (\<lambda>u. u_id u = i) (users d) of
        None \<Rightarrow> Inl (PrismaFault ''P2025'')
      | Some u \<Rightarrow>
          if \<exists>v \<in> set (users d). u_id v \<noteq> i \<and> u_email v = u_email (f u)
          then Inl (PrismaFault ''P2002'')
          else Inr (f u, d\<lparr>users := map (\<lambda>v. if u_id v = i then f v else v) (users d)\<rparr>))"

text \<open>
  \<open>db.token.findFirst({ where: { userId, key, active: true }, include: { user: true } })\<close>:
  the first matching token row joined with its owning user row. The relation is required;
  a token row whose user row is missing makes the client reject.
\<close>

definition db_token_findFirst ::
  "database \<Rightarrow> int \<Rightarrow> string \<Rightarrow> fault + (Token \<times> User) option" where
  "db_token_findFirst d uid k =
     (case find (\<lambda>t. t_userId t = uid \<and> t_key t = k \<and> t_active t) (tokens d) of
        None \<Rightarrow> Inr None
      | Some t \<Rightarrow>
          (case find (\<lambda>u. u_id u = t_userId t) (users d) of
             None \<Rightarrow> Inl (PrismaFault ''Inconsistent query result'')
           | Some u \<Rightarrow> Inr (Some (t, u))))"

text \<open>
  \<open>db.token.create({ data: { key, userId } })\<close>: the \<open>active\<close> column defaults to \<open>true\<close>.
  The insert is rejected with P2003 when the foreign key has no user row, and it can be
  rejected by the store for reasons outside the program (connection lost, disk full);
  that external outcome is the argument \<open>rejects\<close>. The promise never resolves to
  \<open>null\<close>: the result is always \<open>Some\<close> row, the option type only keeps the caller's
  \<open>if (!saveToken)\<close> test expressible.
\<close>

definition db_token_create ::
  "bool \<Rightarrow> database \<Rightarrow> string \<Rightarrow> int \<Rightarrow> fault + (Token option \<times> database)" where
  "db_token_create rejects d k uid =
     (if rejects then Inl (PrismaFault ''P1001'')
      else if \<not> (\<exists>u \<in> set (users d). u_id u = uid) then Inl (PrismaFault ''P2003'')
      else
        let row = \<lparr>t_id = next_token_id d, t_key = k, t_userId = uid, t_active = True\<rparr>
        in Inr (Some row, d\<lparr>tokens := tokens d @ [row], next_token_id := next_token_id d + 1\<rparr>))"

text \<open>
  \<open>db.token.delete({ where: { id, key, active: true } })\<close>: Prisma's \<open>delete\<close> removes the
  row selected by the unique \<open>id\<close> and the extra filters and resolves to the deleted row.
  When no row matches it does not resolve to \<open>null\<close>: it rejects with the
  record-not-found error P2025. As for \<open>create\<close>, the option type in the result only
  keeps the caller's \<open>if (!userToken)\<close> test expressible.
\<close>

definition db_token_delete ::
  "database \<Rightarrow> int \<Rightarrow> string \<Rightarrow> fault + (Token option \<times> database)" where
  "db_token_delete d i k =
     (case find (\<lambda>t. t_id t = i \<and> t_key t = k \<and> t_active t) (tokens d) of
        None \<Rightarrow> Inl (PrismaFault ''P2025'')
      | Some t \<Rightarrow>
          Inr (Some t,
               d\<lparr>tokens := filter (\<lambda>t'. \<not> (t_id t' = i \<and> t_key t' = k \<and> t_active t')) (tokens d)\<rparr>))"

section \<open>Configuration and external libraries\<close>

text \<open>
  The claims of a verified token, as \<open>authMiddleware\<close> reads them: \<open>p_sub\<close> is
  \<open>Number(payload.sub)\<close> (the token is signed with the numeric user id as subject).
\<close>

record AuthPayload =
  p_sub :: int
  p_name :: string
  p_role :: string

text \<open>The ways \<open>jwt.verify\<close> throws.\<close>

datatype jwt_error = TokenExpiredError | JsonWebTokenError string | NotBeforeError

text \<open>
  Everything the handlers take from outside the repository: the environment flag of
  \<open>secrets.ts\<close>, \<open>jsonwebtoken\<close> with the signing secret and the one-hour expiry fixed,
  \<open>bcrypt\<close> with the cost fixed, Zod's e-mail format test, and whether the store rejects
  the next insert into the token table.
\<close>

record env =
  NODE_ENV :: string
  jwt_sign :: "AuthPayload \<Rightarrow> string"
  jwt_verify :: "string \<Rightarrow> jwt_error + AuthPayload"
  hashSync :: "string \<Rightarrow> string"
  compareSync :: "string \<Rightarrow> string \<Rightarrow> bool"
  email_ok :: "string \<Rightarrow> bool"
  token_insert_rejected :: bool

section \<open>Requests, responses and the Express calling convention\<close>

record ReqUser =
  ru_id :: int
  ru_role :: string

record ReqToken =
  rt_id :: int
  rt_key :: string

text \<open>
  A JavaScript number as \<open>Number(s)\<close> yields it from a string: a finite value (every
  finite double is a rational number), or \<open>None\<close> for \<open>NaN\<close> and the infinities. The
  route parameter need not be an integer: \<open>Number("1.5")\<close> is \<open>1.5\<close>.
\<close>

type_synonym js_number = "rat option"

text \<open>
  The parts of an Express request the code reads: the \<open>jwt\<close> cookie, the JSON body, the
  route parameter \<open>id\<close> after \<open>Number(id)\<close>, and the two members that the type
  declaration adds to \<open>Request\<close> (declared non-optional; \<open>authMiddleware\<close> assigns them).
\<close>

record Request =
  req_cookies_jwt :: "string option"
  req_body :: json
  req_params_id :: js_number
  req_user :: ReqUser
  req_token :: ReqToken

record CookieOptions =
  httpOnly :: bool
  sameSite :: string
  secure :: bool
  maxAge :: "nat option"

text \<open>
  The response under construction: \<open>res_sent\<close> is the body once one has been sent
  (\<open>headersSent\<close>), \<open>res_cookies\<close> the \<open>Set-Cookie\<close> values written by \<open>res.cookie\<close> and
  \<open>res_cleared\<close> those written by \<open>res.clearCookie\<close>.
\<close>

record Response =
  res_status :: nat
  res_sent :: "json option"
  res_cookies :: "(string \<times> string \<times> CookieOptions) list"
  res_cleared :: "(string \<times> CookieOptions) list"

definition new_response :: Response where
  "new_response = \<lparr>res_status = 200, res_sent = None, res_cookies = [], res_cleared = []\<rparr>"

definition headersSent :: "Response \<Rightarrow> bool" where
  "headersSent r = (res_sent r \<noteq> None)"

text \<open>\<open>res.status(n).json(j)\<close>; a response that was already sent is not sent again.\<close>

definition status_json :: "nat \<Rightarrow> json \<Rightarrow> Response \<Rightarrow> Response" where
  "status_json n j r = (if headersSent r then r else r\<lparr>res_status := n, res_sent := Some j\<rparr>)"

definition cookie :: "string \<Rightarrow> string \<Rightarrow> CookieOptions \<Rightarrow> Response \<Rightarrow> Response" where
  "cookie n v opts r = r\<lparr>res_cookies := res_cookies r @ [(n, v, opts)]\<rparr>"

definition clearCookie :: "string \<Rightarrow> CookieOptions \<Rightarrow> Response \<Rightarrow> Response" where
  "clearCookie n opts r = r\<lparr>res_cleared := res_cleared r @ [(n, opts)]\<rparr>"

text \<open>The state one request threads through its middlewares and handler.\<close>

record ctx =
  c_req :: Request
  c_res :: Response
  c_db :: database

text \<open>
  How a middleware or handler hands control back: \<open>next()\<close>, \<open>next(err)\<close>, a thrown
  value (rejected promise), or a plain return after the response was written.
\<close>

datatype signal = Next | NextErr HttpException | Threw thrown | Ended

type_synonym handler = "env \<Rightarrow> ctx \<Rightarrow> signal \<times> ctx"

section \<open>JSON rendering of errors and rows\<close>

text \<open>
  \<open>JSON.stringify\<close> of a caught error object: a plain \<open>Error\<close> has no enumerable
  member; a Prisma error carries its \<open>code\<close> (its other members are not modelled).
\<close>

fun fault_json :: "fault \<Rightarrow> json" where
  "fault_json (PlainError m) = JObj []"
| "fault_json (PrismaFault c) = JObj [(''code'', JStr c)]"

definition issue_json :: "issue \<Rightarrow> json" where
  "issue_json i = JObj [(''field'', JStr (fst i)), (''message'', JStr (snd i))]"

fun err_detail_json :: "err_detail \<Rightarrow> json option" where
  "err_detail_json Undefined = None"
| "err_detail_json Null = Some JNull"
| "err_detail_json (Fields is) = Some (JArr (map issue_json is))"
| "err_detail_json (Cause f) = Some (fault_json f)"

definition user_json :: "User \<Rightarrow> json" where
  "user_json u =
     JObj [(''id'', JNum (u_id u)), (''name'', JStr (u_name u)), (''email'', JStr (u_email u)),
           (''password'', JStr (u_password u)), (''role'', JStr (u_role u)),
           (''delete'', JBool (u_delete u))]"

section \<open>error-handler.ts and middleware/errorMiddleware.ts\<close>

text \<open>
  \<open>errorHandler(method)\<close>: runs the handler; a thrown value is converted to an
  \<open>HttpException\<close>, written to the response as \<open>{message, errorCode, errors}\<close> (a member
  that is \<open>undefined\<close> is dropped by the serialiser, \<open>null\<close> is kept) and passed to
  \<open>next\<close>.
\<close>

definition to_exception :: "thrown \<Rightarrow> HttpException" where
  "to_exception err =
     (case err of
        ThrownHttp e \<Rightarrow> e
      | ThrownZod issues \<Rightarrow> ValidationException issues
      | ThrownFault f \<Rightarrow> InternalException ''Something went wrong!'' (Cause f) INTERNAL_EXCEPTION)"

definition envelope :: "HttpException \<Rightarrow> json" where
  "envelope e =
     JObj ([(''message'', JStr (e_message e)), (''errorCode'', JNum (errorCode_num (e_errorCode e)))]
           @ (case err_detail_json (e_errors e) of None \<Rightarrow> [] | Some j \<Rightarrow> [(''errors'', j)]))"

definition errorHandler :: "handler \<Rightarrow> handler" where
  "errorHandler method env c =
     (case method env c of
        (Threw err, c') \<Rightarrow>
          let exception = to_exception err
          in (NextErr exception,
              c'\<lparr>c_res := status_json (e_statusCode exception) (envelope exception) (c_res c')\<rparr>)
      | r \<Rightarrow> r)"

text \<open>
  \<open>errorMiddleware\<close>: when the response was already sent the error goes on to Express's
  default handler, which leaves the sent response as it is; otherwise the envelope is
  \<open>{message, errorCode}\<close>, with \<open>errors\<close> only when \<open>error._errors\<close> is truthy.
\<close>

definition errorMiddleware :: "HttpException \<Rightarrow> Response \<Rightarrow> Response" where
  "errorMiddleware error r =
     (if headersSent r then r
      else
        let response =
              JObj ([(''message'', JStr (e_message error)),
                     (''errorCode'', JNum (errorCode_num (e_errorCode error)))]
                    @ (if truthy (err_detail_json (e_errors error))
                       then [(''errors'', the (err_detail_json (e_errors error)))] else []))
        in status_json (e_statusCode error) response r)"

section \<open>app.ts: running a route\<close>

text \<open>
  A route is a list of handlers. Each runs when its predecessor called \<open>next()\<close>; any
  other signal ends the chain.
\<close>

fun run_chain :: "env \<Rightarrow> handler list \<Rightarrow> ctx \<Rightarrow> signal \<times> ctx" where
  "run_chain env [] c = (Next, c)"
| "run_chain env (h # hs) c =
     (case h env c of
        (Next, c') \<Rightarrow> run_chain env hs c'
      | r \<Rightarrow> r)"

text \<open>
  What the client receives once the chain has ended: \<open>next(err)\<close> reaches
  \<open>errorMiddleware\<close>; a chain that runs off its end reaches the final 404 handler of
  \<open>app.ts\<close>; otherwise the response is the one the handler wrote.
\<close>

definition client_response :: "signal \<times> ctx \<Rightarrow> Response" where
  "client_response r =
     (case r of
        (NextErr e, c) \<Rightarrow> errorMiddleware e (c_res c)
      | (Next, c) \<Rightarrow>
          status_json 404 (JStr ''Sorry, the requested resource was not found.'') (c_res c)
      | (_, c) \<Rightarrow> c_res c)"

section \<open>Zod schemas: singUp.schema.ts and users/update.schema.ts\<close>

text \<open>
  \<open>String.prototype.trim\<close> on the whitespace that a byte string can hold (space, tab,
  line feed, vertical tab, form feed, carriage return).
\<close>

definition is_ws :: "char \<Rightarrow> bool" where
  "is_ws ch = (ch \<in> set [CHR 0x20, CHR 0x09, CHR 0x0A, CHR 0x0B, CHR 0x0C, CHR 0x0D])"

definition js_trim :: "string \<Rightarrow> string" where
  "js_trim s = rev (dropWhile is_ws (rev (dropWhile is_ws s)))"

definition issues_of :: "issue list + 'a \<Rightarrow> issue list" where
  "issues_of r = (case r of Inl is \<Rightarrow> is | Inr _ \<Rightarrow> [])"

text \<open>
  \<open>z.string().trim().min(n, msg)\<close> at a field: a value that is not a string is a type
  issue (the library's own message, abbreviated here); otherwise the value is trimmed
  and its length tested.
\<close>

definition z_string_trim_min :: "string \<Rightarrow> nat \<Rightarrow> string \<Rightarrow> json option \<Rightarrow> issue list + string" where
  "z_string_trim_min path n msg v =
     (case v of
        Some (JStr s) \<Rightarrow> if length (js_trim s) < n then Inl [(path, msg)] else Inr (js_trim s)
      | _ \<Rightarrow> Inl [(path, ''Invalid input: expected string'')])"

text \<open>
  \<open>z.email(msg).trim().min(n, msg')\<close>: the format test runs on the value as sent, then
  the value is trimmed and its length tested; both issues are reported when both fail.
\<close>

definition z_email_trim_min ::
  "env \<Rightarrow> string \<Rightarrow> string \<Rightarrow> nat \<Rightarrow> string \<Rightarrow> json option \<Rightarrow> issue list + string" where
  "z_email_trim_min env path msg n msg' v =
     (case v of
        Some (JStr s) \<Rightarrow>
          let is = (if email_ok env s then [] else [(path, msg)])
                   @ (if length (js_trim s) < n then [(path, msg')] else [])
          in if is = [] then Inr (js_trim s) else Inl is
      | _ \<Rightarrow> Inl [(path, msg)])"

text \<open>\<open>.optional()\<close>: an absent field passes as \<open>undefined\<close>.\<close>

definition z_optional :: "(json option \<Rightarrow> issue list + 'a) \<Rightarrow> json option \<Rightarrow> issue list + 'a option" where
  "z_optional p v =
     (case v of
        None \<Rightarrow> Inr None
      | Some _ \<Rightarrow> (case p v of Inl is \<Rightarrow> Inl is | Inr x \<Rightarrow> Inr (Some x)))"

text \<open>\<open>z.enum(["USER", "ADMIN"])\<close>.\<close>

definition z_enum_role :: "string \<Rightarrow> json option \<Rightarrow> issue list + string" where
  "z_enum_role path v =
     (case v of
        Some (JStr s) \<Rightarrow>
          if s = ''USER'' \<or> s = ''ADMIN'' then Inr s
          else Inl [(path, ''Invalid option: expected one of USER|ADMIN'')]
      | _ \<Rightarrow> Inl [(path, ''Invalid option: expected one of USER|ADMIN'')])"

record SignUpData =
  s_name :: string
  s_email :: string
  s_password :: string

text \<open>
  \<open>singUpSchema.parse(body)\<close>: the three declared fields are checked and returned; any
  other key of the body (a \<open>role\<close>, for instance) is not part of the schema and is
  stripped from the result. All issues are collected, and any issue makes \<open>parse\<close> throw.
\<close>

definition singUpSchema_parse :: "env \<Rightarrow> json \<Rightarrow> issue list + SignUpData" where
  "singUpSchema_parse env b =
     (case b of
        JObj fs \<Rightarrow>
          let n = z_string_trim_min ''name'' 6 ''Name must be at least 6 characters'' (field ''name'' b);
              e = z_email_trim_min env ''email'' ''Invalid email'' 6
                    ''Email must be at least 6 characters'' (field ''email'' b);
              p = z_string_trim_min ''password'' 6 ''Password must be at least 6 characters''
                    (field ''password'' b)
          in (case (n, e, p) of
                (Inr n', Inr e', Inr p') \<Rightarrow> Inr \<lparr>s_name = n', s_email = e', s_password = p'\<rparr>
              | _ \<Rightarrow> Inl (issues_of n @ issues_of e @ issues_of p))
      | _ \<Rightarrow> Inl [([], ''Invalid input: expected object'')])"

record UpdateData =
  up_name :: "string option"
  up_email :: "string option"
  up_password :: "string option"
  up_role :: "string option"

text \<open>\<open>z.email()\<close> without further checks, as \<open>updateSchema\<close> uses it.\<close>

definition z_email :: "env \<Rightarrow> string \<Rightarrow> json option \<Rightarrow> issue list + string" where
  "z_email env path v =
     (case v of
        Some (JStr s) \<Rightarrow> if email_ok env s then Inr s else Inl [(path, ''Invalid email address'')]
      | _ \<Rightarrow> Inl [(path, ''Invalid email address'')])"

definition updateSchema_parse :: "env \<Rightarrow> json \<Rightarrow> issue list + UpdateData" where
  "updateSchema_parse env b =
     (case b of
        JObj fs \<Rightarrow>
          let n = z_optional (z_string_trim_min ''name'' 6 ''Name must be at least 6 characters'')
                    (field ''name'' b);
              e = z_optional (z_email env ''email'') (field ''email'' b);
              p = z_optional
                    (z_string_trim_min ''password'' 6 ''Password must be at least 6 characters'')
                    (field ''password'' b);
              r = z_optional (z_enum_role ''role'') (field ''role'' b)
          in (case (n, e, p, r) of
                (Inr n', Inr e', Inr p', Inr r') \<Rightarrow>
                  Inr \<lparr>up_name = n', up_email = e', up_password = p', up_role = r'\<rparr>
              | _ \<Rightarrow> Inl (issues_of n @ issues_of e @ issues_of p @ issues_of r))
      | _ \<Rightarrow> Inl [([], ''Invalid input: expected object'')])"

section \<open>modules/auth/auth.service.ts\<close>

definition create :: "env \<Rightarrow> database \<Rightarrow> user_data \<Rightarrow> fault + (User \<times> database)" where
  "create env d user =
     db_user_create d
       \<lparr>d_name = d_name user, d_email = d_email user,
        d_password = hashSync env (d_password user), d_role = d_role user\<rparr>"

text \<open>
  \<open>isExists\<close>: \<open>findFirst\<close> with \<open>where: { email, delete: false }\<close>. \<open>login\<close> passes
  whatever the body holds: an \<open>undefined\<close> e-mail drops the e-mail filter, a value that
  is not a string makes the Prisma client reject the query.
\<close>

definition isExists :: "database \<Rightarrow> json option \<Rightarrow> fault + User option" where
  "isExists d email =
     (case email of
        None \<Rightarrow> Inr (db_user_findFirst d (\<lambda>u. \<not> u_delete u))
      | Some (JStr e) \<Rightarrow> Inr (db_user_findFirst d (\<lambda>u. u_email u = e \<and> \<not> u_delete u))
      | Some _ \<Rightarrow> Inl (PrismaFault ''PrismaClientValidationError''))"

definition createToken :: "env \<Rightarrow> database \<Rightarrow> User \<Rightarrow> fault + (string \<times> database)" where
  "createToken env d user =
     (let token = jwt_sign env \<lparr>p_sub = u_id user, p_name = u_name user, p_role = u_role user\<rparr>
      in case db_token_create (token_insert_rejected env) d token (u_id user) of
           Inl f \<Rightarrow> Inl f
         | Inr (None, d') \<Rightarrow> Inl (PlainError ''Can't save token into Token table'')
         | Inr (Some saveToken, d') \<Rightarrow> Inr (token, d'))"

definition deleteToken :: "database \<Rightarrow> string \<Rightarrow> int \<Rightarrow> fault + (Token option \<times> database)" where
  "deleteToken d token i = db_token_delete d i token"

section \<open>modules/users/user.service.ts\<close>

text \<open>
  \<open>userByID(id: number)\<close> and \<open>userSoftDelete(id: number)\<close> hand the number they are given
  to the query as the \<open>id\<close> filter; \<open>userUpdate\<close> is keyed by the \<open>id\<close> member of the row
  object it is given.
\<close>

definition userByID :: "database \<Rightarrow> js_number \<Rightarrow> fault + User option" where
  "userByID d n =
     (case db_int_arg n of
        Inl f \<Rightarrow> Inl f
      | Inr i \<Rightarrow> Inr (db_user_findFirst d (\<lambda>u. u_id u = i)))"

definition userUpdate :: "database \<Rightarrow> User \<Rightarrow> fault + (User \<times> database)" where
  "userUpdate d user =
     db_user_update d (u_id user)
       (\<lambda>row. row\<lparr>u_name := u_name user, u_email := u_email user,
                  u_password := u_password user, u_role := u_role user\<rparr>)"

definition userSoftDelete :: "database \<Rightarrow> js_number \<Rightarrow> fault + (User \<times> database)" where
  "userSoftDelete d n =
     (case db_int_arg n of
        Inl f \<Rightarrow> Inl f
      | Inr i \<Rightarrow> db_user_update d i (\<lambda>row. row\<lparr>u_delete := True\<rparr>))"

section \<open>middleware/authMiddleware.ts and middleware/isAdminMiddleware.ts\<close>

text \<open>
  \<open>authMiddleware\<close>: a missing or empty cookie is refused at once; everything that throws
  inside the \<open>try\<close> block (token verification, the store lookup) lands in the \<open>catch\<close>
  clause, which refuses with the same exception; a lookup that finds no row refuses as
  well. Only a found row fills \<open>req.user\<close> and \<open>req.token\<close> and calls \<open>next()\<close>.
\<close>

definition authMiddleware :: handler where
  "authMiddleware env c =
     (case req_cookies_jwt (c_req c) of
        None \<Rightarrow> (NextErr (UnauthorizedException ''Unauthorized'' UNAUTHORIZED), c)
      | Some token \<Rightarrow>
          if token = [] then (NextErr (UnauthorizedException ''Unauthorized'' UNAUTHORIZED), c)
          else
            (case jwt_verify env token of
               Inl err \<Rightarrow> (NextErr (UnauthorizedException ''Unauthorized'' UNAUTHORIZED), c)
             | Inr payload \<Rightarrow>
                 (case db_token_findFirst (c_db c) (p_sub payload) token of
                    Inl err \<Rightarrow> (NextErr (UnauthorizedException ''Unauthorized'' UNAUTHORIZED), c)
                  | Inr None \<Rightarrow> (NextErr (UnauthorizedException ''Unauthorized'' UNAUTHORIZED), c)
                  | Inr (Some (userToken, user)) \<Rightarrow>
                      (Next,
                       c\<lparr>c_req := (c_req c)
                           \<lparr>req_user :=
                              \<lparr>ru_id = t_userId userToken,
                               ru_role = (if u_role user \<noteq> [] then u_role user else p_role payload)\<rparr>,
                            req_token := \<lparr>rt_id = t_id userToken, rt_key = t_key userToken\<rparr>\<rparr>\<rparr>))))"

definition isAdminMiddleware :: handler where
  "isAdminMiddleware env c =
     (if ru_role (req_user (c_req c)) \<noteq> ''ADMIN''
      then (NextErr (UnauthorizedException ''Access Denied. Admins only'' UNAUTHORIZED), c)
      else (Next, c))"

section \<open>modules/auth/auth.controller.ts\<close>

definition signup :: handler where
  "signup env c =
     (case singUpSchema_parse env (req_body (c_req c)) of
        Inl issues \<Rightarrow> (Threw (ThrownZod issues), c)
      | Inr data \<Rightarrow>
          (case isExists (c_db c) (Some (JStr (s_email data))) of
             Inl f \<Rightarrow> (Threw (ThrownFault f), c)
           | Inr (Some existingUser) \<Rightarrow>
               (NextErr (BadRequestException ''User already exists!'' USER_ALREADY_EXISTS), c)
           | Inr None \<Rightarrow>
               (case create env (c_db c)
                       \<lparr>d_name = s_name data, d_email = s_email data,
                        d_password = s_password data, d_role = ''USER''\<rparr> of
                  Inl f \<Rightarrow> (Threw (ThrownFault f), c)
                | Inr (user, d') \<Rightarrow>
                    (Ended,
                     c\<lparr>c_db := d',
                       c_res := status_json 201
                                  (JObj [(''email'', JStr (u_email user)), (''role'', JStr (u_role user))])
                                  (c_res c)\<rparr>))))"

text \<open>
  \<open>compareSync(password, user.password)\<close> with the body's \<open>password\<close> as it came:
  \<open>bcrypt\<close> throws on anything that is not a string.
\<close>

definition compare_body_password :: "env \<Rightarrow> json option \<Rightarrow> string \<Rightarrow> fault + bool" where
  "compare_body_password env password hash =
     (case password of
        Some (JStr p) \<Rightarrow> Inr (compareSync env p hash)
      | _ \<Rightarrow> Inl (PlainError ''data and hash arguments required''))"

definition login :: handler where
  "login env c =
     (let email = field ''email'' (req_body (c_req c));
          password = field ''password'' (req_body (c_req c))
      in case isExists (c_db c) email of
           Inl f \<Rightarrow> (Threw (ThrownFault f), c)
         | Inr None \<Rightarrow> (NextErr (NotFoundException ''User does not exists!'' USER_NOT_FOUND), c)
         | Inr (Some user) \<Rightarrow>
             (case compare_body_password env password (u_password user) of
                Inl f \<Rightarrow> (Threw (ThrownFault f), c)
              | Inr False \<Rightarrow>
                  (NextErr (BadRequestException ''Incorrect password!'' INCORRECT_PASSWORD), c)
              | Inr True \<Rightarrow>
                  (case createToken env (c_db c) user of
                     Inl f \<Rightarrow> (Threw (ThrownFault f), c)
                   | Inr (token, d') \<Rightarrow>
                       (Ended,
                        c\<lparr>c_db := d',
                          c_res :=
                            status_json 200
                              (JObj [(''userID'', JNum (u_id user)), (''message'', JStr ''Login success!'')])
                              (cookie ''jwt'' token
                                 \<lparr>httpOnly = True, sameSite = ''lax'', secure = False,
                                  maxAge = Some (60 * 60 * 1000)\<rparr>
                                 (c_res c))\<rparr>))))"

definition logout :: handler where
  "logout env c =
     (case deleteToken (c_db c) (rt_key (req_token (c_req c))) (rt_id (req_token (c_req c))) of
        Inl f \<Rightarrow> (Threw (ThrownFault f), c)
      | Inr (None, d') \<Rightarrow>
          (NextErr (NotFoundException ''Token does not exists!'' TOKEN_NOT_FOUND), c\<lparr>c_db := d'\<rparr>)
      | Inr (Some userToken, d') \<Rightarrow>
          (Ended,
           c\<lparr>c_db := d',
             c_res :=
               status_json 201
                 (JObj [(''userId'', JNum (t_userId userToken)), (''message'', JStr ''Logout success'')])
                 (clearCookie ''jwt''
                    \<lparr>httpOnly = True, sameSite = ''lax'',
                     secure = (NODE_ENV env = ''production''), maxAge = None\<rparr>
                    (c_res c))\<rparr>))"

section \<open>modules/users/user.controller.ts\<close>

text \<open>
  \<open>update\<close>: \<open>targetId\<close> is the number \<open>Number(req.params.id)\<close>. The self-demotion test
  \<open>req.user.id === targetId\<close> compares that number with the signed-in user's integer id,
  while the row that is rewritten is \<open>existingUser\<close>, the one the store selected for
  \<open>targetId\<close>.
\<close>

definition update :: handler where
  "update env c =
     (let targetId = req_params_id (c_req c)
      in case userByID (c_db c) targetId of
           Inl f \<Rightarrow> (Threw (ThrownFault f), c)
         | Inr None \<Rightarrow> (NextErr (NotFoundException ''User not found'' USER_NOT_FOUND), c)
         | Inr (Some existingUser) \<Rightarrow>
             (case updateSchema_parse env (req_body (c_req c)) of
                Inl issues \<Rightarrow> (Threw (ThrownZod issues), c)
              | Inr data \<Rightarrow>
                  if Some (of_int (ru_id (req_user (c_req c)))) = targetId \<and> truthy_str (up_role data)
                     \<and> up_role data \<noteq> Some ''ADMIN''
                  then (NextErr (BadRequestException ''You cannot demote yourself'' SELF_DEMOTION), c)
                  else
                    let updatedUserData =
                          existingUser
                            \<lparr>u_name := (case up_name data of Some n \<Rightarrow> n | None \<Rightarrow> u_name existingUser),
                             u_email := (case up_email data of Some e \<Rightarrow> e | None \<Rightarrow> u_email existingUser),
                             u_role := (case up_role data of Some r \<Rightarrow> r | None \<Rightarrow> u_role existingUser)\<rparr>;
                        updatedUserData' =
                          (if truthy_str (up_password data)
                           then updatedUserData\<lparr>u_password := hashSync env (the (up_password data))\<rparr>
                           else updatedUserData)
                    in (case userUpdate (c_db c) updatedUserData' of
                          Inl f \<Rightarrow> (Threw (ThrownFault f), c)
                        | Inr (updated, d') \<Rightarrow>
                            (Ended,
                             c\<lparr>c_db := d',
                               c_res :=
                                 status_json 200
                                   (JObj [(''message'', JStr ''User updated''), (''user'', user_json updated)])
                                   (c_res c)\<rparr>))))"

definition softDelete :: handler where
  "softDelete env c =
     (let targetId = req_params_id (c_req c)
      in case userByID (c_db c) targetId of
           Inl f \<Rightarrow> (Threw (ThrownFault f), c)
         | Inr None \<Rightarrow> (NextErr (NotFoundException ''User not found'' USER_NOT_FOUND), c)
         | Inr (Some existingUser) \<Rightarrow>
             if Some (of_int (ru_id (req_user (c_req c)))) = targetId
             then (NextErr (BadRequestException ''You cannot delete yourself'' SELF_DEMOTION), c)
             else
               (case userSoftDelete (c_db c) targetId of
                  Inl f \<Rightarrow> (Threw (ThrownFault f), c)
                | Inr (deleted, d') \<Rightarrow>
                    (Ended,
                     c\<lparr>c_db := d',
                       c_res :=
                         status_json 200
                           (JObj [(''message'', JStr ''User deleted''), (''user'', user_json deleted)])
                           (c_res c)\<rparr>)))"

section \<open>The routes (auth.routes.ts, user.routes.ts)\<close>

datatype route = POST_signup | POST_login | POST_logout | PATCH_user | DELETE_user

fun handlers :: "route \<Rightarrow> handler list" where
  "handlers POST_signup = [errorHandler signup]"
| "handlers POST_login = [errorHandler login]"
| "handlers POST_logout = [authMiddleware, errorHandler logout]"
| "handlers PATCH_user = [authMiddleware, isAdminMiddleware, errorHandler update]"
| "handlers DELETE_user = [authMiddleware, isAdminMiddleware, errorHandler softDelete]"

text \<open>One request against the store: the signal and final state of its route.\<close>

definition serve :: "env \<Rightarrow> route \<Rightarrow> Request \<Rightarrow> database \<Rightarrow> signal \<times> ctx" where
  "serve env rt rq d = run_chain env (handlers rt) \<lparr>c_req = rq, c_res = new_response, c_db = d\<rparr>"

text \<open>
  The stores reachable from a freshly migrated database (users may have been seeded, the
  token table is empty) by serving requests. The read-only routes of the user and task
  modules never write to the two tables and are not listed.
\<close>

inductive reachable :: "database \<Rightarrow> bool" where
  initial: "tokens d = [] \<Longrightarrow> reachable d"
| request: "reachable d \<Longrightarrow> d' = c_db (snd (serve env rt rq d)) \<Longrightarrow> reachable d'"

section \<open>A sample deployment\<close>

text \<open>
  A small concrete configuration and store on which the handlers can be evaluated: a toy
  signer whose token names its holder, a toy hasher, an administrator (Ann), a
  soft-deleted user (Bob) who still has a session row, and the seeded super user.
\<close>

definition sample_sign :: "AuthPayload \<Rightarrow> string" where
  "sample_sign p = ''jwt:'' @ p_name p"

definition sample_verify :: "string \<Rightarrow> jwt_error + AuthPayload" where
  "sample_verify t =
     (if t = ''jwt:Ann Admin'' then Inr \<lparr>p_sub = 1, p_name = ''Ann Admin'', p_role = ''ADMIN''\<rparr>
      else if t = ''jwt:Bob Builder'' then Inr \<lparr>p_sub = 2, p_name = ''Bob Builder'', p_role = ''USER''\<rparr>
      else if t = ''jwt:SUPER USER'' then Inr \<lparr>p_sub = 3, p_name = ''SUPER USER'', p_role = ''ROOT''\<rparr>
      else if t = ''jwt:expired'' then Inl TokenExpiredError
      else if t = ''jwt:forged'' then Inl (JsonWebTokenError ''invalid signature'')
      else Inl (JsonWebTokenError ''jwt malformed''))"

definition sample_env :: env where
  "sample_env =
     \<lparr>NODE_ENV = ''development'', jwt_sign = sample_sign, jwt_verify = sample_verify,
      hashSync = (\<lambda>p. ''h:'' @ p), compareSync = (\<lambda>p h. h = ''h:'' @ p),
      email_ok = (\<lambda>s. CHR ''@'' \<in> set s), token_insert_rejected = False\<rparr>"

definition ann :: User where
  "ann = \<lparr>u_id = 1, u_name = ''Ann Admin'', u_email = ''ann@example.com'',
          u_password = ''h:secret-ann'', u_role = ''ADMIN'', u_delete = False\<rparr>"

definition bob :: User where
  "bob = \<lparr>u_id = 2, u_name = ''Bob Builder'', u_email = ''bob@example.com'',
          u_password = ''h:secret-bob'', u_role = ''USER'', u_delete = True\<rparr>"

definition root :: User where
  "root = \<lparr>u_id = 3, u_name = ''SUPER USER'', u_email = ''root@example.com'',
           u_password = ''h:secret-root'', u_role = ''ROOT'', u_delete = False\<rparr>"

definition sample_db :: database where
  "sample_db =
     \<lparr>users = [ann, bob, root],
      tokens = [\<lparr>t_id = 1, t_key = ''jwt:Bob Builder'', t_userId = 2, t_active = True\<rparr>],
      next_user_id = 4, next_token_id = 2\<rparr>"

definition sample_request :: Request where
  "sample_request =
     \<lparr>req_cookies_jwt = None, req_body = JObj [], req_params_id = Some 0,
      req_user = \<lparr>ru_id = 0, ru_role = []\<rparr>, req_token = \<lparr>rt_id = 0, rt_key = []\<rparr>\<rparr>"

text \<open>
  The context of a request that has passed \<open>authMiddleware\<close> as the user with the given
  id and role, against the sample store.
\<close>

definition signed_in :: "int \<Rightarrow> string \<Rightarrow> ctx" where
  "signed_in uid role =
     \<lparr>c_req = sample_request\<lparr>req_user := \<lparr>ru_id = uid, ru_role = role\<rparr>\<rparr>,
      c_res = new_response, c_db = sample_db\<rparr>"

text \<open>Ann logs in with her password.\<close>

definition ann_login :: Request where
  "ann_login =
     sample_request\<lparr>req_body :=
       JObj [(''email'', JStr ''ann@example.com''), (''password'', JStr ''secret-ann'')]\<rparr>"

text \<open>
  A logout request that has passed \<open>authMiddleware\<close> with Bob's session row, reaching the
  handler after that row has been removed (a second logout with the same cookie was
  served in between).
\<close>

definition stale_logout :: ctx where
  "stale_logout =
     \<lparr>c_req = sample_request\<lparr>req_cookies_jwt := Some ''jwt:Bob Builder'',
                              req_user := \<lparr>ru_id = 2, ru_role = ''USER''\<rparr>,
                              req_token := \<lparr>rt_id = 1, rt_key = ''jwt:Bob Builder''\<rparr>\<rparr>,
      c_res = new_response,
      c_db = sample_db\<lparr>tokens := []\<rparr>\<rparr>"

text \<open>A signup that tries to assign itself the administrator role.\<close>

definition carol_signup :: Request where
  "carol_signup =
     sample_request\<lparr>req_body :=
       JObj [(''role'', JStr ''ADMIN''), (''name'', JStr ''Carol Client''),
             (''email'', JStr ''carol@example.com''), (''password'', JStr ''secret-carol'')]\<rparr>"

text \<open>The same signup without the \<open>role\<close> member.\<close>

definition carol_plain :: Request where
  "carol_plain =
     sample_request\<lparr>req_body :=
       JObj [(''name'', JStr ''Carol Client''),
             (''email'', JStr ''carol@example.com''), (''password'', JStr ''secret-carol'')]\<rparr>"

text \<open>Bob, soft-deleted, presents the cookie of his remaining session; and tries to log in.\<close>

definition bob_request :: Request where
  "bob_request = sample_request\<lparr>req_cookies_jwt := Some ''jwt:Bob Builder''\<rparr>"

definition bob_login :: Request where
  "bob_login =
     sample_request\<lparr>req_body :=
       JObj [(''email'', JStr ''bob@example.com''), (''password'', JStr ''secret-bob'')]\<rparr>"

text \<open>
  Ann, signed in as administrator with id 1, sends a \<open>PATCH\<close> with the given route
  parameter and body; \<open>ann_self_update\<close> is the request for \<open>/1\<close>, her own id.
\<close>

definition ann_update :: "js_number \<Rightarrow> json \<Rightarrow> ctx" where
  "ann_update n b =
     \<lparr>c_req = sample_request\<lparr>req_cookies_jwt := Some ''jwt:Ann Admin'', req_body := b,
                              req_params_id := n,
                              req_user := \<lparr>ru_id = 1, ru_role = ''ADMIN''\<rparr>,
                              req_token := \<lparr>rt_id = 2, rt_key = ''jwt:Ann Admin''\<rparr>\<rparr>,
      c_res = new_response, c_db = sample_db\<rparr>"

definition ann_self_update :: "json \<Rightarrow> ctx" where
  "ann_self_update b = ann_update (Some 1) b"

section \<open>Auxiliary facts\<close>

lemma find_no_match: "\<not> (\<exists>x \<in> set xs. P x) \<Longrightarrow> find P xs = None"
  by (simp add: find_None_iff)

lemma authMiddleware_refusal:
  "fst (authMiddleware env c) \<noteq> Next \<Longrightarrow>
   authMiddleware env c = (NextErr (UnauthorizedException ''Unauthorized'' UNAUTHORIZED), c)"
  by (auto simp: authMiddleware_def split: option.splits sum.splits if_splits prod.splits)

lemma errorMiddleware_unauthorized:
  "errorMiddleware (UnauthorizedException m code) new_response =
     \<lparr>res_status = 401,
      res_sent = Some (JObj [(''message'', JStr m), (''errorCode'', JNum (errorCode_num code))]),
      res_cookies = [], res_cleared = []\<rparr>"
  by (simp add: errorMiddleware_def UnauthorizedException_def new_response_def headersSent_def
      status_json_def)

lemma singUpSchema_ignores_role:
  "singUpSchema_parse env (JObj ((''role'', v) # fs)) = singUpSchema_parse env (JObj fs)"
  by (simp add: singUpSchema_parse_def)

lemma carol_parse:
  "singUpSchema_parse sample_env (req_body carol_signup) =
     Inr \<lparr>s_name = ''Carol Client'', s_email = ''carol@example.com'', s_password = ''secret-carol''\<rparr>"
  by (simp add: singUpSchema_parse_def carol_signup_def sample_request_def sample_env_def
      z_string_trim_min_def z_email_trim_min_def js_trim_def is_ws_def Let_def)

lemma carol_plain_parse:
  "singUpSchema_parse sample_env (req_body carol_plain) =
     Inr \<lparr>s_name = ''Carol Client'', s_email = ''carol@example.com'', s_password = ''secret-carol''\<rparr>"
  by (simp add: singUpSchema_parse_def carol_plain_def sample_request_def sample_env_def
      z_string_trim_min_def z_email_trim_min_def js_trim_def is_ws_def Let_def)

lemma carol_signup_plain:
  "\<lparr>c_req = carol_plain, c_res = new_response, c_db = sample_db\<rparr>
     \<lparr>c_req := (c_req \<lparr>c_req = carol_plain, c_res = new_response, c_db = sample_db\<rparr>)
         \<lparr>req_body := JObj ((''role'', JStr ''ADMIN'') #
            [(''name'', JStr ''Carol Client''),
             (''email'', JStr ''carol@example.com''), (''password'', JStr ''secret-carol'')])\<rparr>\<rparr>
   = \<lparr>c_req = carol_signup, c_res = new_response, c_db = sample_db\<rparr>"
  by (simp add: carol_plain_def carol_signup_def)

lemma unique_by_email:
  assumes "distinct (map u_email us)" and "u \<in> set us" and "v \<in> set us" and "u_email v = u_email u"
  shows "v = u"
  using assms by (meson distinct_map inj_onD)

lemma isExists_soft_deleted:
  assumes "u \<in> set (users d)" and "u_delete u" and "distinct (map u_email (users d))"
  shows "isExists d (Some (JStr (u_email u))) = Inr None"
proof -
  have "\<not> (\<exists>v \<in> set (users d). u_email v = u_email u \<and> \<not> u_delete v)"
    using assms unique_by_email by blast
  then show ?thesis
    by (simp add: isExists_def db_user_findFirst_def find_no_match)
qed

lemma session_lookup_finds:
  assumes "t \<in> set (tokens d)" and "t_userId t = uid" and "t_key t = k" and "t_active t"
    and "u \<in> set (users d)" and "u_id u = uid"
  shows "\<exists>t' u'. db_token_findFirst d uid k = Inr (Some (t', u'))
            \<and> t_userId t' = uid \<and> t_key t' = k \<and> t_active t' \<and> u_id u' = uid"
proof -
  obtain t' where t': "find (\<lambda>t. t_userId t = uid \<and> t_key t = k \<and> t_active t) (tokens d) = Some t'"
    using assms(1-4) by (cases "find (\<lambda>t. t_userId t = uid \<and> t_key t = k \<and> t_active t) (tokens d)")
      (auto simp: find_None_iff)
  then have p: "t_userId t' = uid \<and> t_key t' = k \<and> t_active t'"
    by (auto simp: find_Some_iff)
  obtain u' where u': "find (\<lambda>u. u_id u = t_userId t') (users d) = Some u'"
    using assms(5,6) p by (cases "find (\<lambda>u. u_id u = t_userId t') (users d)") (auto simp: find_None_iff)
  then have "u_id u' = uid"
    using p by (auto simp: find_Some_iff)
  with t' u' p show ?thesis
    by (simp add: db_token_findFirst_def)
qed

lemma floor_three_halves: "\<lfloor>3 / 2 :: rat\<rfloor> = 1"
  by (simp add: floor_eq_iff)

lemma root_body_parse:
  "updateSchema_parse sample_env (JObj [(''role'', JStr ''ROOT'')]) =
     Inl [(''role'', ''Invalid option: expected one of USER|ADMIN'')]"
  by (simp add: updateSchema_parse_def z_optional_def z_enum_role_def issues_of_def)

lemma user_body_parse:
  "updateSchema_parse sample_env (JObj [(''name'', JStr ''Ann Other''), (''role'', JStr ''USER'')]) =
     Inr \<lparr>up_name = Some ''Ann Other'', up_email = None, up_password = None, up_role = Some ''USER''\<rparr>"
  by (simp add: updateSchema_parse_def z_optional_def z_enum_role_def issues_of_def
      z_string_trim_min_def js_trim_def is_ws_def)

lemma updateSchema_role:
  assumes "updateSchema_parse env b = Inr data" and "field ''role'' b = Some v"
  shows "(v = JStr ''USER'' \<or> v = JStr ''ADMIN'') \<and> (\<exists>r. v = JStr r \<and> up_role data = Some r)"
proof (cases b)
  case (JObj fs)
  with assms have "\<exists>r'. z_optional (z_enum_role ''role'') (Some v) = Inr r' \<and> up_role data = r'"
    by (auto simp: updateSchema_parse_def Let_def split: sum.splits)
  then show ?thesis
    by (auto simp: z_optional_def z_enum_role_def split: sum.splits json.splits if_splits)
qed (use assms in \<open>simp_all add: updateSchema_parse_def\<close>)

text \<open>What each handler does to the token table.\<close>

lemma authMiddleware_db: "c_db (snd (authMiddleware env c)) = c_db c"
  by (simp add: authMiddleware_def split: option.splits sum.splits prod.splits)

lemma isAdminMiddleware_db: "c_db (snd (isAdminMiddleware env c)) = c_db c"
  by (simp add: isAdminMiddleware_def)

lemma errorHandler_db: "c_db (snd (errorHandler h env c)) = c_db (snd (h env c))"
  by (simp add: errorHandler_def Let_def split: prod.splits signal.splits)

lemma db_user_create_tokens: "db_user_create d x = Inr (u, d') \<Longrightarrow> tokens d' = tokens d"
  by (auto simp: db_user_create_def Let_def split: if_splits)

lemma db_user_update_tokens: "db_user_update d i f = Inr (u, d') \<Longrightarrow> tokens d' = tokens d"
  by (auto simp: db_user_update_def split: option.splits if_splits)

lemma db_token_create_rows:
  "db_token_create rj d k uid = Inr (r, d') \<Longrightarrow>
   \<exists>row. tokens d' = tokens d @ [row] \<and> t_active row"
  by (auto simp: db_token_create_def Let_def split: if_splits)

lemma db_token_delete_rows:
  "db_token_delete d i k = Inr (r, d') \<Longrightarrow> set (tokens d') \<subseteq> set (tokens d)"
  by (auto simp: db_token_delete_def split: option.splits)

lemma signup_tokens: "tokens (c_db (snd (signup env c))) = tokens (c_db c)"
  by (auto simp: signup_def create_def split: sum.splits option.splits prod.splits
      dest: db_user_create_tokens)

lemma update_tokens: "tokens (c_db (snd (update env c))) = tokens (c_db c)"
  by (auto simp: update_def userUpdate_def Let_def split: sum.splits option.splits prod.splits
      dest: db_user_update_tokens)

lemma softDelete_tokens: "tokens (c_db (snd (softDelete env c))) = tokens (c_db c)"
  by (auto simp: softDelete_def userSoftDelete_def Let_def split: sum.splits option.splits prod.splits
      dest: db_user_update_tokens)

lemma login_rows:
  "t \<in> set (tokens (c_db (snd (login env c)))) \<Longrightarrow> t \<in> set (tokens (c_db c)) \<or> t_active t"
  by (auto simp: login_def createToken_def Let_def
      split: sum.splits option.splits prod.splits bool.splits dest!: db_token_create_rows)

lemma login_keeps: "set (tokens (c_db c)) \<subseteq> set (tokens (c_db (snd (login env c))))"
  by (auto simp: login_def createToken_def Let_def
      split: sum.splits option.splits prod.splits bool.splits dest!: db_token_create_rows)

lemma logout_rows: "set (tokens (c_db (snd (logout env c)))) \<subseteq> set (tokens (c_db c))"
  by (auto simp: logout_def deleteToken_def db_token_delete_def
      split: sum.splits option.splits prod.splits)

lemma run_chain_related:
  assumes refl: "\<And>d. R d d"
    and trans: "\<And>a b c. R a b \<Longrightarrow> R b c \<Longrightarrow> R a c"
    and each: "\<forall>h \<in> set hs. \<forall>e k. R (c_db k) (c_db (snd (h e k)))"
  shows "R (c_db c) (c_db (snd (run_chain env hs c)))"
  using each
proof (induction hs arbitrary: c)
  case Nil
  show ?case by (simp add: refl)
next
  case (Cons h hs)
  obtain sg c' where step: "h env c = (sg, c')"
    by (cases "h env c")
  from Cons.prems have "R (c_db c) (c_db (snd (h env c)))"
    by simp
  then have here: "R (c_db c) (c_db c')"
    using step by simp
  show ?case
  proof (cases "sg = Next")
    case True
    then have "run_chain env (h # hs) c = run_chain env hs c'"
      using step by simp
    moreover have "R (c_db c') (c_db (snd (run_chain env hs c')))"
      using Cons.prems by (intro Cons.IH) simp
    ultimately show ?thesis
      using here trans by (metis (no_types))
  next
    case False
    then have "run_chain env (h # hs) c = (sg, c')"
      using step by (cases sg) simp_all
    then show ?thesis
      using here by simp
  qed
qed

lemma serve_rows:
  "t \<in> set (tokens (c_db (snd (serve env rt rq d)))) \<Longrightarrow> t \<in> set (tokens d) \<or> t_active t"
proof -
  let ?R = "\<lambda>a b. \<forall>t \<in> set (tokens b). t \<in> set (tokens a) \<or> t_active t"
  have "\<forall>h \<in> set (handlers rt). \<forall>e k. ?R (c_db k) (c_db (snd (h e k)))"
    using logout_rows
    by (cases rt)
       (auto simp: authMiddleware_db isAdminMiddleware_db errorHandler_db signup_tokens
          update_tokens softDelete_tokens dest: login_rows)
  then have "?R (c_db \<lparr>c_req = rq, c_res = new_response, c_db = d\<rparr>)
      (c_db (snd (run_chain env (handlers rt) \<lparr>c_req = rq, c_res = new_response, c_db = d\<rparr>)))"
    by (intro run_chain_related [where R = ?R]) blast+
  then show "t \<in> set (tokens (c_db (snd (serve env rt rq d)))) \<Longrightarrow> t \<in> set (tokens d) \<or> t_active t"
    by (simp add: serve_def)
qed

lemma serve_creates_only_in_login:
  assumes "rt \<noteq> POST_login"
  shows "set (tokens (c_db (snd (serve env rt rq d)))) \<subseteq> set (tokens d)"
proof -
  let ?R = "\<lambda>a b. set (tokens b) \<subseteq> set (tokens a)"
  have "\<forall>h \<in> set (handlers rt). \<forall>e k. ?R (c_db k) (c_db (snd (h e k)))"
    using assms logout_rows
    by (cases rt)
       (auto simp: authMiddleware_db isAdminMiddleware_db errorHandler_db signup_tokens
          update_tokens softDelete_tokens)
  then have "?R (c_db \<lparr>c_req = rq, c_res = new_response, c_db = d\<rparr>)
      (c_db (snd (run_chain env (handlers rt) \<lparr>c_req = rq, c_res = new_response, c_db = d\<rparr>)))"
    by (intro run_chain_related [where R = ?R]) blast+
  then show ?thesis
    by (simp add: serve_def)
qed

lemma serve_deletes_only_in_logout:
  assumes "rt \<noteq> POST_logout"
  shows "set (tokens d) \<subseteq> set (tokens (c_db (snd (serve env rt rq d))))"
proof -
  let ?R = "\<lambda>a b. set (tokens a) \<subseteq> set (tokens b)"
  have "\<forall>h \<in> set (handlers rt). \<forall>e k. ?R (c_db k) (c_db (snd (h e k)))"
    using assms login_keeps
    by (cases rt)
       (auto simp: authMiddleware_db isAdminMiddleware_db errorHandler_db signup_tokens
          update_tokens softDelete_tokens)
  then have "?R (c_db \<lparr>c_req = rq, c_res = new_response, c_db = d\<rparr>)
      (c_db (snd (run_chain env (handlers rt) \<lparr>c_req = rq, c_res = new_response, c_db = d\<rparr>)))"
    by (intro run_chain_related [where R = ?R]) blast+
  then show ?thesis
    by (simp add: serve_def)
qed

lemma ann_login_served:
  "c_db (snd (serve sample_env POST_login ann_login (sample_db\<lparr>tokens := []\<rparr>))) =
     sample_db\<lparr>tokens := [\<lparr>t_id = 2, t_key = ''jwt:Ann Admin'', t_userId = 1, t_active = True\<rparr>],
               next_token_id := 3\<rparr>"
  by (simp add: serve_def errorHandler_def login_def ann_login_def sample_request_def sample_env_def
      sample_db_def isExists_def db_user_findFirst_def ann_def bob_def root_def
      compare_body_password_def createToken_def db_token_create_def sample_sign_def
      status_json_def headersSent_def cookie_def new_response_def Let_def)

lemma signup_ignores_role:
  assumes "req_body (c_req c) = JObj fs"
  shows "fst (errorHandler signup env (c\<lparr>c_req := (c_req c)\<lparr>req_body := JObj ((''role'', v) # fs)\<rparr>\<rparr>))
           = fst (errorHandler signup env c)
         \<and> c_db (snd (errorHandler signup env (c\<lparr>c_req := (c_req c)\<lparr>req_body := JObj ((''role'', v) # fs)\<rparr>\<rparr>)))
           = c_db (snd (errorHandler signup env c))
         \<and> c_res (snd (errorHandler signup env (c\<lparr>c_req := (c_req c)\<lparr>req_body := JObj ((''role'', v) # fs)\<rparr>\<rparr>)))
           = c_res (snd (errorHandler signup env c))"
  using assms
  by (simp add: errorHandler_def signup_def singUpSchema_ignores_role Let_def
      split: sum.splits option.splits prod.splits)

lemma signup_success_iff:
  assumes valid: "singUpSchema_parse env (req_body (c_req c)) = Inr data"
  shows "fst (errorHandler signup env c) = Ended \<longleftrightarrow>
         \<not> (\<exists>u \<in> set (users (c_db c)). u_email u = s_email data)"
proof (cases "\<exists>u \<in> set (users (c_db c)). u_email u = s_email data")
  case True
  then have "create env (c_db c)
       \<lparr>d_name = s_name data, d_email = s_email data, d_password = s_password data, d_role = ''USER''\<rparr>
     = Inl (PrismaFault ''P2002'')"
    by (simp add: create_def db_user_create_def)
  then have "fst (errorHandler signup env c) \<noteq> Ended"
    by (simp add: errorHandler_def signup_def valid isExists_def Let_def
        split: option.splits)
  with True show ?thesis by simp
next
  case False
  then have none: "isExists (c_db c) (Some (JStr (s_email data))) = Inr None"
    by (auto simp: isExists_def db_user_findFirst_def find_None_iff)
  from False have "\<exists>r. create env (c_db c)
       \<lparr>d_name = s_name data, d_email = s_email data, d_password = s_password data, d_role = ''USER''\<rparr>
     = Inr r"
    by (simp add: create_def db_user_create_def Let_def)
  then have "fst (errorHandler signup env c) = Ended"
    by (auto simp: errorHandler_def signup_def valid none)
  with False show ?thesis by simp
qed

text \<open>The two handlers of the login and logout routes, in general.\<close>

lemma logout_not_found_branch_unreachable:
  "fst (logout env c) \<noteq> NextErr (NotFoundException ''Token does not exists!'' TOKEN_NOT_FOUND)"
  by (simp add: logout_def deleteToken_def db_token_delete_def split: option.splits)

lemma logout_without_row:
  assumes "\<not> (\<exists>t \<in> set (tokens (c_db c)).
               t_id t = rt_id (req_token (c_req c)) \<and> t_key t = rt_key (req_token (c_req c)) \<and> t_active t)"
  shows "fst (errorHandler logout env c) =
           NextErr (InternalException ''Something went wrong!'' (Cause (PrismaFault ''P2025''))
                      INTERNAL_EXCEPTION)"
proof -
  have "find (\<lambda>t. t_id t = rt_id (req_token (c_req c)) \<and> t_key t = rt_key (req_token (c_req c))
                  \<and> t_active t) (tokens (c_db c)) = None"
    using assms by (rule find_no_match)
  then have "logout env c = (Threw (ThrownFault (PrismaFault ''P2025'')), c)"
    by (simp add: logout_def deleteToken_def db_token_delete_def)
  then show ?thesis
    by (simp add: errorHandler_def to_exception_def Let_def)
qed

lemma login_cookie_options:
  assumes "login env c = (Ended, c')"
  shows "\<exists>token. res_cookies (c_res c') =
           res_cookies (c_res c) @
             [(''jwt'', token,
               \<lparr>httpOnly = True, sameSite = ''lax'', secure = False, maxAge = Some 3600000\<rparr>)]"
  using assms
  by (auto simp: login_def Let_def status_json_def cookie_def
      split: sum.splits option.splits bool.splits prod.splits if_splits)


section \<open>The authentication pipeline\<close>

text \<open>
  Claim C1. A protected request whose cookie holds a token that verifies (well formed,
  correctly signed, not expired), while the token table has no active row for the
  token's subject and exactly this token string, is refused: \<open>authMiddleware\<close> passes
  the generic \<open>Unauthorized\<close> exception (status 401, code 4001) to \<open>next\<close>, leaves
  request, response and store untouched, and whatever handlers follow on the route are
  not run (the result is the same for every continuation \<open>rest\<close>). The client receives
  the 401 envelope.
\<close>

theorem revoked_session_is_unauthorized:
  assumes cookie: "req_cookies_jwt (c_req c) = Some token"
    and valid: "jwt_verify env token = Inr payload"
    and revoked: "\<not> (\<exists>t \<in> set (tokens (c_db c)).
                      t_userId t = p_sub payload \<and> t_key t = token \<and> t_active t)"
  shows "run_chain env (authMiddleware # rest) c =
           (NextErr (UnauthorizedException ''Unauthorized'' UNAUTHORIZED), c)
         \<and> (c_res c = new_response \<longrightarrow>
              client_response (run_chain env (authMiddleware # rest) c) =
                \<lparr>res_status = 401,
                 res_sent = Some (JObj [(''message'', JStr ''Unauthorized''), (''errorCode'', JNum 4001)]),
                 res_cookies = [], res_cleared = []\<rparr>)"
proof -
  have "find (\<lambda>t. t_userId t = p_sub payload \<and> t_key t = token \<and> t_active t) (tokens (c_db c)) = None"
    using revoked by (rule find_no_match)
  then have "db_token_findFirst (c_db c) (p_sub payload) token = Inr None"
    by (simp add: db_token_findFirst_def)
  with cookie valid
  have stop: "authMiddleware env c = (NextErr (UnauthorizedException ''Unauthorized'' UNAUTHORIZED), c)"
    by (simp add: authMiddleware_def)
  then have chain: "run_chain env (authMiddleware # rest) c =
      (NextErr (UnauthorizedException ''Unauthorized'' UNAUTHORIZED), c)"
    by simp
  show ?thesis
    by (simp only: chain) (simp add: client_response_def errorMiddleware_unauthorized)
qed

text \<open>
  Ann's token verifies, but the sample store holds no session row for it (she has logged
  out): her logout request is refused before the logout handler runs.
\<close>

theorem revoked_session_is_unauthorized_witness:
  "req_cookies_jwt (sample_request\<lparr>req_cookies_jwt := Some ''jwt:Ann Admin''\<rparr>) = Some ''jwt:Ann Admin''
   \<and> jwt_verify sample_env ''jwt:Ann Admin'' = Inr \<lparr>p_sub = 1, p_name = ''Ann Admin'', p_role = ''ADMIN''\<rparr>
   \<and> \<not> (\<exists>t \<in> set (tokens sample_db). t_userId t = 1 \<and> t_key t = ''jwt:Ann Admin'' \<and> t_active t)
   \<and> serve sample_env POST_logout (sample_request\<lparr>req_cookies_jwt := Some ''jwt:Ann Admin''\<rparr>) sample_db =
       (NextErr (UnauthorizedException ''Unauthorized'' UNAUTHORIZED),
        \<lparr>c_req = sample_request\<lparr>req_cookies_jwt := Some ''jwt:Ann Admin''\<rparr>,
         c_res = new_response, c_db = sample_db\<rparr>)
   \<and> client_response
        (serve sample_env POST_logout (sample_request\<lparr>req_cookies_jwt := Some ''jwt:Ann Admin''\<rparr>) sample_db) =
       \<lparr>res_status = 401,
        res_sent = Some (JObj [(''message'', JStr ''Unauthorized''), (''errorCode'', JNum 4001)]),
        res_cookies = [], res_cleared = []\<rparr>"
proof -
  let ?rq = "sample_request\<lparr>req_cookies_jwt := Some ''jwt:Ann Admin''\<rparr>"
  let ?c = "\<lparr>c_req = ?rq, c_res = new_response, c_db = sample_db\<rparr>"
  let ?p = "\<lparr>p_sub = 1, p_name = ''Ann Admin'', p_role = ''ADMIN''\<rparr>"
  have h1: "req_cookies_jwt (c_req ?c) = Some ''jwt:Ann Admin''"
    by simp
  have h2: "jwt_verify sample_env ''jwt:Ann Admin'' = Inr ?p"
    by (simp add: sample_env_def sample_verify_def)
  have h3: "\<not> (\<exists>t \<in> set (tokens (c_db ?c)). t_userId t = p_sub ?p \<and> t_key t = ''jwt:Ann Admin''
                \<and> t_active t)"
    by (simp add: sample_db_def)
  note served = revoked_session_is_unauthorized [OF h1 h2 h3, of "[errorHandler logout]"]
  have fresh: "c_res ?c = new_response"
    by simp
  have a: "run_chain sample_env [authMiddleware, errorHandler logout] ?c =
      (NextErr (UnauthorizedException ''Unauthorized'' UNAUTHORIZED), ?c)"
    using served by (rule conjunct1)
  have b: "client_response (run_chain sample_env [authMiddleware, errorHandler logout] ?c) =
       \<lparr>res_status = 401,
        res_sent = Some (JObj [(''message'', JStr ''Unauthorized''), (''errorCode'', JNum 4001)]),
        res_cookies = [], res_cleared = []\<rparr>"
    using served fresh by blast
  have chain: "serve sample_env POST_logout ?rq sample_db =
      run_chain sample_env [authMiddleware, errorHandler logout] ?c"
    by (simp add: serve_def)
  have g1: "req_cookies_jwt ?rq = Some ''jwt:Ann Admin''"
    by simp
  have g3: "\<not> (\<exists>t \<in> set (tokens sample_db). t_userId t = 1 \<and> t_key t = ''jwt:Ann Admin'' \<and> t_active t)"
    by (simp add: sample_db_def)
  show ?thesis
    unfolding chain using g1 h2 g3 a b by blast
qed


section \<open>The authorization gate\<close>

text \<open>
  Claim C7. \<open>isAdminMiddleware\<close> calls \<open>next()\<close> if and only if the role in the request
  context is the string \<open>ADMIN\<close>; then the rest of the route runs. For every other role
  it passes to \<open>next\<close> the exception with status 401 and message
  \<open>Access Denied. Admins only\<close>, and the rest of the route does not run. The role \<open>ROOT\<close>
  is among the refused ones.
\<close>

theorem admin_gate_exact_match:
  "(fst (isAdminMiddleware env c) = Next \<longleftrightarrow> ru_role (req_user (c_req c)) = ''ADMIN'')
   \<and> (ru_role (req_user (c_req c)) = ''ADMIN'' \<longrightarrow>
        run_chain env (isAdminMiddleware # rest) c = run_chain env rest c)
   \<and> (ru_role (req_user (c_req c)) \<noteq> ''ADMIN'' \<longrightarrow>
        run_chain env (isAdminMiddleware # rest) c =
          (NextErr \<lparr>e_message = ''Access Denied. Admins only'', e_statusCode = 401,
                    e_errorCode = UNAUTHORIZED, e_errors = Undefined\<rparr>, c))
   \<and> (ru_role (req_user (c_req c)) = ''ROOT'' \<longrightarrow> fst (isAdminMiddleware env c) \<noteq> Next)"
  by (auto simp: isAdminMiddleware_def UnauthorizedException_def)

text \<open>
  The seeded super user (role \<open>ROOT\<close>) is refused on the admin route for updating users;
  an administrator passes the gate.
\<close>

theorem admin_gate_exact_match_witness:
  "ru_role (req_user (c_req (signed_in 3 ''ROOT''))) = ''ROOT''
   \<and> ru_role (req_user (c_req (signed_in 3 ''ROOT''))) \<noteq> ''ADMIN''
   \<and> fst (isAdminMiddleware sample_env (signed_in 3 ''ROOT'')) \<noteq> Next
   \<and> run_chain sample_env [isAdminMiddleware, errorHandler update] (signed_in 3 ''ROOT'') =
       (NextErr \<lparr>e_message = ''Access Denied. Admins only'', e_statusCode = 401,
                 e_errorCode = UNAUTHORIZED, e_errors = Undefined\<rparr>, signed_in 3 ''ROOT'')
   \<and> ru_role (req_user (c_req (signed_in 1 ''ADMIN''))) = ''ADMIN''
   \<and> fst (isAdminMiddleware sample_env (signed_in 1 ''ADMIN'')) = Next
   \<and> run_chain sample_env [isAdminMiddleware] (signed_in 1 ''ADMIN'') = (Next, signed_in 1 ''ADMIN'')"
  using admin_gate_exact_match [of sample_env "signed_in 3 ''ROOT''" "[errorHandler update]"]
    admin_gate_exact_match [of sample_env "signed_in 1 ''ADMIN''" "[]"]
  by (simp add: signed_in_def sample_request_def)

section \<open>Verification failures look alike\<close>

text \<open>
  Claim C5. Take any two protected requests whose cookie tokens fail verification, for
  whatever reasons (expired, malformed, bad signature), on any routes and against any
  stores. The client receives the same response in both cases, and it is the generic one:
  status 401, message \<open>Unauthorized\<close>, error code 4001, no \<open>errors\<close> member, no cookie.
  Nothing in the response depends on the kind of failure.
\<close>

theorem verification_failures_indistinguishable:
  assumes "req_cookies_jwt rq1 = Some token1" and "jwt_verify env1 token1 = Inl err1"
    and "req_cookies_jwt rq2 = Some token2" and "jwt_verify env2 token2 = Inl err2"
  shows "client_response (run_chain env1 (authMiddleware # rest1)
             \<lparr>c_req = rq1, c_res = new_response, c_db = d1\<rparr>) =
         client_response (run_chain env2 (authMiddleware # rest2)
             \<lparr>c_req = rq2, c_res = new_response, c_db = d2\<rparr>)
         \<and> client_response (run_chain env1 (authMiddleware # rest1)
             \<lparr>c_req = rq1, c_res = new_response, c_db = d1\<rparr>) =
           \<lparr>res_status = 401,
            res_sent = Some (JObj [(''message'', JStr ''Unauthorized''), (''errorCode'', JNum 4001)]),
            res_cookies = [], res_cleared = []\<rparr>"
proof -
  have one: "client_response (run_chain e (authMiddleware # rest) \<lparr>c_req = rq, c_res = new_response, c_db = d\<rparr>) =
      \<lparr>res_status = 401,
       res_sent = Some (JObj [(''message'', JStr ''Unauthorized''), (''errorCode'', JNum 4001)]),
       res_cookies = [], res_cleared = []\<rparr>"
    if "req_cookies_jwt rq = Some token" and "jwt_verify e token = Inl err"
    for e rest rq d token err
  proof -
    from that have "authMiddleware e \<lparr>c_req = rq, c_res = new_response, c_db = d\<rparr> =
        (NextErr (UnauthorizedException ''Unauthorized'' UNAUTHORIZED),
         \<lparr>c_req = rq, c_res = new_response, c_db = d\<rparr>)"
      by (simp add: authMiddleware_def)
    then show ?thesis
      by (simp add: client_response_def errorMiddleware_unauthorized)
  qed
  show ?thesis
    using one [OF assms(1,2)] one [OF assms(3,4)] by simp
qed

text \<open>
  An expired token on the logout route and a forged token on the user-update route get
  the same response.
\<close>

theorem verification_failures_indistinguishable_witness:
  "req_cookies_jwt (sample_request\<lparr>req_cookies_jwt := Some ''jwt:expired''\<rparr>) = Some ''jwt:expired''
   \<and> jwt_verify sample_env ''jwt:expired'' = Inl TokenExpiredError
   \<and> req_cookies_jwt (sample_request\<lparr>req_cookies_jwt := Some ''jwt:forged''\<rparr>) = Some ''jwt:forged''
   \<and> jwt_verify sample_env ''jwt:forged'' = Inl (JsonWebTokenError ''invalid signature'')
   \<and> client_response (serve sample_env POST_logout (sample_request\<lparr>req_cookies_jwt := Some ''jwt:expired''\<rparr>) sample_db)
     = client_response (serve sample_env PATCH_user (sample_request\<lparr>req_cookies_jwt := Some ''jwt:forged''\<rparr>) sample_db)"
  using verification_failures_indistinguishable
    [of "sample_request\<lparr>req_cookies_jwt := Some ''jwt:expired''\<rparr>" "''jwt:expired''" sample_env
        TokenExpiredError
        "sample_request\<lparr>req_cookies_jwt := Some ''jwt:forged''\<rparr>" "''jwt:forged''" sample_env
        "JsonWebTokenError ''invalid signature''"
        "[errorHandler logout]" sample_db "[isAdminMiddleware, errorHandler update]" sample_db]
  by (simp add: serve_def sample_request_def sample_env_def sample_verify_def)

section \<open>Signup\<close>

text \<open>
  Claim C6. For every signup whose body passes \<open>singUpSchema\<close>: the request succeeds
  exactly when the e-mail is not yet in the user table, and when it succeeds the row
  that is stored has role \<open>USER\<close> (and the hashed password) and the response is 201
  with a body of exactly two members, \<open>email\<close> and \<open>role\<close> - no password, no id.
  A \<open>role\<close> member put in front of the body by the client changes neither the store nor
  the response.
\<close>

theorem signup_forces_user_role:
  assumes valid: "singUpSchema_parse env (req_body (c_req c)) = Inr data"
    and fresh: "c_res c = new_response"
  shows "(fst (errorHandler signup env c) = Ended \<longleftrightarrow>
            \<not> (\<exists>u \<in> set (users (c_db c)). u_email u = s_email data))
         \<and> (fst (errorHandler signup env c) = Ended \<longrightarrow>
              errorHandler signup env c =
                (Ended,
                 c\<lparr>c_db := (c_db c)
                       \<lparr>users := users (c_db c) @
                           [\<lparr>u_id = next_user_id (c_db c), u_name = s_name data, u_email = s_email data,
                             u_password = hashSync env (s_password data), u_role = ''USER'',
                             u_delete = False\<rparr>],
                        next_user_id := next_user_id (c_db c) + 1\<rparr>,
                   c_res :=
                     \<lparr>res_status = 201,
                      res_sent = Some (JObj [(''email'', JStr (s_email data)), (''role'', JStr ''USER'')]),
                      res_cookies = [], res_cleared = []\<rparr>\<rparr>))
         \<and> (req_body (c_req c) = JObj fs \<longrightarrow>
              c_db (snd (errorHandler signup env (c\<lparr>c_req := (c_req c)\<lparr>req_body := JObj ((''role'', v) # fs)\<rparr>\<rparr>)))
                = c_db (snd (errorHandler signup env c))
              \<and> c_res (snd (errorHandler signup env (c\<lparr>c_req := (c_req c)\<lparr>req_body := JObj ((''role'', v) # fs)\<rparr>\<rparr>)))
                = c_res (snd (errorHandler signup env c)))"
proof (intro conjI impI)
  show "fst (errorHandler signup env c) = Ended \<longleftrightarrow>
        \<not> (\<exists>u \<in> set (users (c_db c)). u_email u = s_email data)"
    using valid by (rule signup_success_iff)
next
  assume "fst (errorHandler signup env c) = Ended"
  then have unused: "\<not> (\<exists>u \<in> set (users (c_db c)). u_email u = s_email data)"
    using signup_success_iff [OF valid] by simp
  then have none: "isExists (c_db c) (Some (JStr (s_email data))) = Inr None"
    by (auto simp: isExists_def db_user_findFirst_def find_None_iff)
  have created: "create env (c_db c)
       \<lparr>d_name = s_name data, d_email = s_email data, d_password = s_password data, d_role = ''USER''\<rparr>
     = Inr (\<lparr>u_id = next_user_id (c_db c), u_name = s_name data, u_email = s_email data,
              u_password = hashSync env (s_password data), u_role = ''USER'', u_delete = False\<rparr>,
            (c_db c)\<lparr>users := users (c_db c) @
                      [\<lparr>u_id = next_user_id (c_db c), u_name = s_name data, u_email = s_email data,
                        u_password = hashSync env (s_password data), u_role = ''USER'',
                        u_delete = False\<rparr>],
                   next_user_id := next_user_id (c_db c) + 1\<rparr>)"
    using unused by (simp add: create_def db_user_create_def Let_def)
  show "errorHandler signup env c =
          (Ended,
           c\<lparr>c_db := (c_db c)
                 \<lparr>users := users (c_db c) @
                     [\<lparr>u_id = next_user_id (c_db c), u_name = s_name data, u_email = s_email data,
                       u_password = hashSync env (s_password data), u_role = ''USER'',
                       u_delete = False\<rparr>],
                  next_user_id := next_user_id (c_db c) + 1\<rparr>,
             c_res :=
               \<lparr>res_status = 201,
                res_sent = Some (JObj [(''email'', JStr (s_email data)), (''role'', JStr ''USER'')]),
                res_cookies = [], res_cleared = []\<rparr>\<rparr>)"
    using fresh
    by (simp add: errorHandler_def signup_def valid none created status_json_def headersSent_def
        new_response_def)
next
  assume "req_body (c_req c) = JObj fs"
  then show "c_db (snd (errorHandler signup env (c\<lparr>c_req := (c_req c)\<lparr>req_body := JObj ((''role'', v) # fs)\<rparr>\<rparr>)))
                = c_db (snd (errorHandler signup env c))"
    and "c_res (snd (errorHandler signup env (c\<lparr>c_req := (c_req c)\<lparr>req_body := JObj ((''role'', v) # fs)\<rparr>\<rparr>)))
                = c_res (snd (errorHandler signup env c))"
    using signup_ignores_role by blast+
qed

text \<open>
  Carol asks for the role \<open>ADMIN\<close>; she is stored as \<open>USER\<close> and is told so.
\<close>

theorem signup_forces_user_role_witness:
  "singUpSchema_parse sample_env (req_body carol_signup) =
     Inr \<lparr>s_name = ''Carol Client'', s_email = ''carol@example.com'', s_password = ''secret-carol''\<rparr>
   \<and> \<not> (\<exists>u \<in> set (users sample_db). u_email u = ''carol@example.com'')
   \<and> field ''role'' (req_body carol_signup) = Some (JStr ''ADMIN'')
   \<and> serve sample_env POST_signup carol_signup sample_db =
       (Ended,
        \<lparr>c_req = carol_signup,
         c_res = \<lparr>res_status = 201,
                  res_sent = Some (JObj [(''email'', JStr ''carol@example.com''), (''role'', JStr ''USER'')]),
                  res_cookies = [], res_cleared = []\<rparr>,
         c_db = sample_db
           \<lparr>users := [ann, bob, root,
                       \<lparr>u_id = 4, u_name = ''Carol Client'', u_email = ''carol@example.com'',
                        u_password = ''h:secret-carol'', u_role = ''USER'', u_delete = False\<rparr>],
            next_user_id := 5\<rparr>\<rparr>)
   \<and> c_db (snd (errorHandler signup sample_env
                   \<lparr>c_req = carol_signup, c_res = new_response, c_db = sample_db\<rparr>))
       = c_db (snd (errorHandler signup sample_env
                      \<lparr>c_req = carol_plain, c_res = new_response, c_db = sample_db\<rparr>))
   \<and> c_res (snd (errorHandler signup sample_env
                    \<lparr>c_req = carol_signup, c_res = new_response, c_db = sample_db\<rparr>))
       = c_res (snd (errorHandler signup sample_env
                       \<lparr>c_req = carol_plain, c_res = new_response, c_db = sample_db\<rparr>))"
proof -
  have h2: "\<not> (\<exists>u \<in> set (users sample_db). u_email u = ''carol@example.com'')"
    by (simp add: sample_db_def ann_def bob_def root_def)
  have h3: "field ''role'' (req_body carol_signup) = Some (JStr ''ADMIN'')"
    by (simp add: carol_signup_def sample_request_def)
  have chain: "serve sample_env POST_signup carol_signup sample_db =
      errorHandler signup sample_env \<lparr>c_req = carol_signup, c_res = new_response, c_db = sample_db\<rparr>"
    by (simp add: serve_def split: prod.splits signal.splits)
  have r: "errorHandler signup sample_env \<lparr>c_req = carol_signup, c_res = new_response, c_db = sample_db\<rparr> =
      (Ended,
       \<lparr>c_req = carol_signup,
        c_res = \<lparr>res_status = 201,
                 res_sent = Some (JObj [(''email'', JStr ''carol@example.com''), (''role'', JStr ''USER'')]),
                 res_cookies = [], res_cleared = []\<rparr>,
        c_db = sample_db
          \<lparr>users := users sample_db @
                      [\<lparr>u_id = next_user_id sample_db, u_name = ''Carol Client'',
                        u_email = ''carol@example.com'',
                        u_password = hashSync sample_env ''secret-carol'', u_role = ''USER'',
                        u_delete = False\<rparr>],
           next_user_id := next_user_id sample_db + 1\<rparr>\<rparr>)"
    using carol_parse h2
      signup_forces_user_role
        [of sample_env "\<lparr>c_req = carol_signup, c_res = new_response, c_db = sample_db\<rparr>"
            "\<lparr>s_name = ''Carol Client'', s_email = ''carol@example.com'', s_password = ''secret-carol''\<rparr>"]
    by simp
  have final: "serve sample_env POST_signup carol_signup sample_db =
       (Ended,
        \<lparr>c_req = carol_signup,
         c_res = \<lparr>res_status = 201,
                  res_sent = Some (JObj [(''email'', JStr ''carol@example.com''), (''role'', JStr ''USER'')]),
                  res_cookies = [], res_cleared = []\<rparr>,
         c_db = sample_db
           \<lparr>users := [ann, bob, root,
                       \<lparr>u_id = 4, u_name = ''Carol Client'', u_email = ''carol@example.com'',
                        u_password = ''h:secret-carol'', u_role = ''USER'', u_delete = False\<rparr>],
            next_user_id := 5\<rparr>\<rparr>)"
    unfolding chain r by (simp add: sample_db_def sample_env_def)
  have body: "req_body (c_req \<lparr>c_req = carol_plain, c_res = new_response, c_db = sample_db\<rparr>) =
      JObj [(''name'', JStr ''Carol Client''),
             (''email'', JStr ''carol@example.com''), (''password'', JStr ''secret-carol'')]"
    by (simp add: carol_plain_def)
  have same: "c_db (snd (errorHandler signup sample_env
                   \<lparr>c_req = carol_signup, c_res = new_response, c_db = sample_db\<rparr>))
       = c_db (snd (errorHandler signup sample_env
                      \<lparr>c_req = carol_plain, c_res = new_response, c_db = sample_db\<rparr>))
     \<and> c_res (snd (errorHandler signup sample_env
                    \<lparr>c_req = carol_signup, c_res = new_response, c_db = sample_db\<rparr>))
       = c_res (snd (errorHandler signup sample_env
                       \<lparr>c_req = carol_plain, c_res = new_response, c_db = sample_db\<rparr>))"
    using signup_forces_user_role
        [of sample_env "\<lparr>c_req = carol_plain, c_res = new_response, c_db = sample_db\<rparr>"
            "\<lparr>s_name = ''Carol Client'', s_email = ''carol@example.com'', s_password = ''secret-carol''\<rparr>"
            "[(''name'', JStr ''Carol Client''),
             (''email'', JStr ''carol@example.com''), (''password'', JStr ''secret-carol'')]"
            "JStr ''ADMIN''"]
      carol_plain_parse body
    unfolding carol_signup_plain by simp
  show ?thesis
    using carol_parse h2 h3 final same by blast
qed

section \<open>Login\<close>

text \<open>
  Claim C4, evaluated where it fails. \<open>login\<close> writes the cookie option \<open>secure: false\<close>
  as a literal. With the environment flag set to \<open>production\<close>, Ann's successful login
  gets a \<open>jwt\<close> cookie with \<open>httpOnly\<close> true, \<open>sameSite\<close> lax and a max-age of 3600000 ms
  (3600 s), but with \<open>secure\<close> false. (\<open>logout\<close>, next to it, computes
  \<open>NODE_ENV === "production"\<close> for the same option. Lemma \<open>login_cookie_options\<close>
  states the cookie options for every successful login.)
\<close>

theorem login_cookie_insecure_in_production:
  "NODE_ENV (sample_env\<lparr>NODE_ENV := ''production''\<rparr>) = ''production''
   \<and> fst (serve (sample_env\<lparr>NODE_ENV := ''production''\<rparr>) POST_login ann_login sample_db) = Ended
   \<and> client_response (serve (sample_env\<lparr>NODE_ENV := ''production''\<rparr>) POST_login ann_login sample_db) =
       \<lparr>res_status = 200,
        res_sent = Some (JObj [(''userID'', JNum 1), (''message'', JStr ''Login success!'')]),
        res_cookies = [(''jwt'', ''jwt:Ann Admin'',
                        \<lparr>httpOnly = True, sameSite = ''lax'', secure = False, maxAge = Some 3600000\<rparr>)],
        res_cleared = []\<rparr>"
  by (simp add: serve_def errorHandler_def login_def ann_login_def sample_request_def sample_env_def
      sample_db_def isExists_def db_user_findFirst_def ann_def bob_def root_def
      compare_body_password_def createToken_def db_token_create_def sample_sign_def
      status_json_def headersSent_def cookie_def new_response_def client_response_def Let_def)

text \<open>
  Claim C9. When the user is found and the password verifies but the insert of the
  session row is rejected, \<open>createToken\<close> throws before \<open>res.cookie\<close> is reached:
  the wrapped handler answers with the internal error (status 500, code 3001), the
  response carries no cookie, and the store is unchanged.
\<close>

theorem failed_session_insert_fails_login:
  assumes found: "isExists (c_db c) (field ''email'' (req_body (c_req c))) = Inr (Some user)"
    and password_ok: "compare_body_password env (field ''password'' (req_body (c_req c)))
                        (u_password user) = Inr True"
    and insert_fails: "db_token_create (token_insert_rejected env) (c_db c)
                         (jwt_sign env \<lparr>p_sub = u_id user, p_name = u_name user, p_role = u_role user\<rparr>)
                         (u_id user) = Inl f"
    and fresh: "c_res c = new_response"
  shows "errorHandler login env c =
           (NextErr (InternalException ''Something went wrong!'' (Cause f) INTERNAL_EXCEPTION),
            c\<lparr>c_res :=
                \<lparr>res_status = 500,
                 res_sent = Some (JObj [(''message'', JStr ''Something went wrong!''),
                                        (''errorCode'', JNum 3001), (''errors'', fault_json f)]),
                 res_cookies = [], res_cleared = []\<rparr>\<rparr>)
         \<and> res_status (client_response (errorHandler login env c)) = 500
         \<and> res_cookies (client_response (errorHandler login env c)) = []
         \<and> c_db (snd (errorHandler login env c)) = c_db c"
proof -
  have "createToken env (c_db c) user = Inl f"
    using insert_fails by (simp add: createToken_def)
  with found password_ok have thrown: "login env c = (Threw (ThrownFault f), c)"
    by (simp add: login_def)
  have wrapped: "errorHandler login env c =
           (NextErr (InternalException ''Something went wrong!'' (Cause f) INTERNAL_EXCEPTION),
            c\<lparr>c_res :=
                \<lparr>res_status = 500,
                 res_sent = Some (JObj [(''message'', JStr ''Something went wrong!''),
                                        (''errorCode'', JNum 3001), (''errors'', fault_json f)]),
                 res_cookies = [], res_cleared = []\<rparr>\<rparr>)"
    using fresh
    by (simp add: errorHandler_def thrown to_exception_def InternalException_def envelope_def
        status_json_def headersSent_def new_response_def)
  show ?thesis
    by (simp only: wrapped)
       (simp add: client_response_def errorMiddleware_def headersSent_def)
qed

text \<open>Ann's login while the store rejects inserts into the token table.\<close>

theorem failed_session_insert_fails_login_witness:
  "isExists sample_db (field ''email'' (req_body ann_login)) = Inr (Some ann)
   \<and> compare_body_password (sample_env\<lparr>token_insert_rejected := True\<rparr>)
        (field ''password'' (req_body ann_login)) (u_password ann) = Inr True
   \<and> db_token_create (token_insert_rejected (sample_env\<lparr>token_insert_rejected := True\<rparr>)) sample_db
        (jwt_sign (sample_env\<lparr>token_insert_rejected := True\<rparr>)
           \<lparr>p_sub = u_id ann, p_name = u_name ann, p_role = u_role ann\<rparr>) (u_id ann)
       = Inl (PrismaFault ''P1001'')
   \<and> res_status (client_response (serve (sample_env\<lparr>token_insert_rejected := True\<rparr>) POST_login
                                     ann_login sample_db)) = 500
   \<and> res_cookies (client_response (serve (sample_env\<lparr>token_insert_rejected := True\<rparr>) POST_login
                                      ann_login sample_db)) = []
   \<and> c_db (snd (serve (sample_env\<lparr>token_insert_rejected := True\<rparr>) POST_login ann_login sample_db))
       = sample_db"
proof -
  have h1: "isExists sample_db (field ''email'' (req_body ann_login)) = Inr (Some ann)"
    by (simp add: isExists_def db_user_findFirst_def ann_login_def sample_request_def sample_db_def
        ann_def bob_def root_def)
  have h2: "compare_body_password (sample_env\<lparr>token_insert_rejected := True\<rparr>)
        (field ''password'' (req_body ann_login)) (u_password ann) = Inr True"
    by (simp add: compare_body_password_def ann_login_def sample_request_def sample_env_def ann_def)
  have h3: "db_token_create (token_insert_rejected (sample_env\<lparr>token_insert_rejected := True\<rparr>)) sample_db
        (jwt_sign (sample_env\<lparr>token_insert_rejected := True\<rparr>)
           \<lparr>p_sub = u_id ann, p_name = u_name ann, p_role = u_role ann\<rparr>) (u_id ann)
       = Inl (PrismaFault ''P1001'')"
    by (simp add: db_token_create_def)
  show ?thesis
    using h1 h2 h3
      failed_session_insert_fails_login
        [of "\<lparr>c_req = ann_login, c_res = new_response, c_db = sample_db\<rparr>" ann
            "sample_env\<lparr>token_insert_rejected := True\<rparr>" "PrismaFault ''P1001''"]
    by (simp add: serve_def client_response_def errorMiddleware_def headersSent_def)
qed

section \<open>Logout\<close>

text \<open>
  Claim C3, evaluated where it fails. When the logout handler runs and no active row
  matches the context's record id and token string, \<open>db.token.delete\<close> rejects, so the
  handler's own not-found branch is never taken: the wrapper turns the rejection into the
  internal error. The client receives status 500 with code 3001, not 404 with code 6001.
  (Lemmas \<open>logout_not_found_branch_unreachable\<close> and \<open>logout_without_row\<close> state this
  for every request.)
\<close>

theorem logout_without_row_is_internal_error:
  "client_response (errorHandler logout sample_env stale_logout) =
     \<lparr>res_status = 500,
      res_sent = Some (JObj [(''message'', JStr ''Something went wrong!''), (''errorCode'', JNum 3001),
                             (''errors'', JObj [(''code'', JStr ''P2025'')])]),
      res_cookies = [], res_cleared = []\<rparr>
   \<and> fst (errorHandler logout sample_env stale_logout) \<noteq>
       NextErr (NotFoundException ''Token does not exists!'' TOKEN_NOT_FOUND)"
  by (simp add: errorHandler_def logout_def stale_logout_def sample_request_def sample_db_def
      deleteToken_def db_token_delete_def to_exception_def InternalException_def envelope_def
      status_json_def headersSent_def new_response_def client_response_def errorMiddleware_def
      NotFoundException_def Let_def)

section \<open>Soft-deleted users\<close>

text \<open>
  The two authentication paths for a user whose soft-delete flag is true (e-mails being
  unique in the table, as the store enforces): a login with that user's e-mail fails with
  the user-not-found exception; a protected request with a verifying token of that user
  for which an active session row still exists passes \<open>authMiddleware\<close>, as that user,
  and the rest of the route runs. The lookup tests the row's \<open>active\<close> flag only; the
  user's \<open>delete\<close> flag is not read, and \<open>softDelete\<close> leaves the token table as it is.
\<close>

lemma soft_deleted_user_paths:
  assumes member: "u \<in> set (users (c_db c))"
    and deleted: "u_delete u"
    and unique: "distinct (map u_email (users (c_db c)))"
  shows "(field ''email'' (req_body (c_req c)) = Some (JStr (u_email u)) \<longrightarrow>
            errorHandler login env c =
              (NextErr (NotFoundException ''User does not exists!'' USER_NOT_FOUND), c))
         \<and> (req_cookies_jwt (c_req c) = Some token \<and> token \<noteq> []
              \<and> jwt_verify env token = Inr payload \<and> p_sub payload = u_id u
              \<and> t \<in> set (tokens (c_db c)) \<and> t_userId t = u_id u \<and> t_key t = token \<and> t_active t \<longrightarrow>
            fst (authMiddleware env c) = Next
            \<and> ru_id (req_user (c_req (snd (authMiddleware env c)))) = u_id u
            \<and> run_chain env (authMiddleware # rest) c = run_chain env rest (snd (authMiddleware env c)))"
proof (intro conjI impI)
  assume email: "field ''email'' (req_body (c_req c)) = Some (JStr (u_email u))"
  have "isExists (c_db c) (Some (JStr (u_email u))) = Inr None"
    using member deleted unique by (rule isExists_soft_deleted)
  with email have "login env c = (NextErr (NotFoundException ''User does not exists!'' USER_NOT_FOUND), c)"
    by (simp add: login_def)
  then show "errorHandler login env c =
      (NextErr (NotFoundException ''User does not exists!'' USER_NOT_FOUND), c)"
    by (simp add: errorHandler_def)
next
  assume session: "req_cookies_jwt (c_req c) = Some token \<and> token \<noteq> []
              \<and> jwt_verify env token = Inr payload \<and> p_sub payload = u_id u
              \<and> t \<in> set (tokens (c_db c)) \<and> t_userId t = u_id u \<and> t_key t = token \<and> t_active t"
  then obtain t' u' where found: "db_token_findFirst (c_db c) (u_id u) token = Inr (Some (t', u'))"
    and t': "t_userId t' = u_id u"
    using session_lookup_finds [of t "c_db c" "u_id u" token u] member by blast
  have accepted: "authMiddleware env c =
      (Next, c\<lparr>c_req := (c_req c)
                  \<lparr>req_user := \<lparr>ru_id = t_userId t',
                                 ru_role = (if u_role u' \<noteq> [] then u_role u' else p_role payload)\<rparr>,
                   req_token := \<lparr>rt_id = t_id t', rt_key = t_key t'\<rparr>\<rparr>\<rparr>)"
    using session found by (simp add: authMiddleware_def)
  show "fst (authMiddleware env c) = Next"
    by (simp add: accepted)
  show "ru_id (req_user (c_req (snd (authMiddleware env c)))) = u_id u"
    by (simp add: accepted t')
  show "run_chain env (authMiddleware # rest) c = run_chain env rest (snd (authMiddleware env c))"
    by (simp add: accepted)
qed

text \<open>Bob's login is refused, while his cookie still passes the pipeline.\<close>

lemma soft_deleted_user_paths_sample:
  "bob \<in> set (users sample_db) \<and> u_delete bob \<and> distinct (map u_email (users sample_db))
   \<and> field ''email'' (req_body bob_login) = Some (JStr (u_email bob))
   \<and> serve sample_env POST_login bob_login sample_db =
       (NextErr (NotFoundException ''User does not exists!'' USER_NOT_FOUND),
        \<lparr>c_req = bob_login, c_res = new_response, c_db = sample_db\<rparr>)
   \<and> fst (authMiddleware sample_env \<lparr>c_req = bob_request, c_res = new_response, c_db = sample_db\<rparr>) = Next"
proof -
  let ?t = "\<lparr>t_id = 1, t_key = ''jwt:Bob Builder'', t_userId = 2, t_active = True\<rparr>"
  let ?p = "\<lparr>p_sub = 2, p_name = ''Bob Builder'', p_role = ''USER''\<rparr>"
  have h1: "bob \<in> set (users sample_db)" and h2: "u_delete bob"
    and h3: "distinct (map u_email (users sample_db))"
    by (simp_all add: sample_db_def ann_def bob_def root_def)
  have h4: "field ''email'' (req_body bob_login) = Some (JStr (u_email bob))"
    by (simp add: bob_login_def sample_request_def bob_def)
  have h5: "req_cookies_jwt bob_request = Some ''jwt:Bob Builder'' \<and> ''jwt:Bob Builder'' \<noteq> []
      \<and> jwt_verify sample_env ''jwt:Bob Builder'' = Inr ?p \<and> p_sub ?p = u_id bob
      \<and> ?t \<in> set (tokens sample_db) \<and> t_userId ?t = u_id bob \<and> t_key ?t = ''jwt:Bob Builder''
      \<and> t_active ?t"
    by (simp add: bob_request_def sample_request_def sample_env_def sample_verify_def sample_db_def
        bob_def)
  have login: "errorHandler login sample_env \<lparr>c_req = bob_login, c_res = new_response, c_db = sample_db\<rparr> =
      (NextErr (NotFoundException ''User does not exists!'' USER_NOT_FOUND),
       \<lparr>c_req = bob_login, c_res = new_response, c_db = sample_db\<rparr>)"
    using soft_deleted_user_paths
      [of bob "\<lparr>c_req = bob_login, c_res = new_response, c_db = sample_db\<rparr>" sample_env]
      h1 h2 h3 h4 by simp
  have pipeline: "fst (authMiddleware sample_env \<lparr>c_req = bob_request, c_res = new_response, c_db = sample_db\<rparr>) = Next"
    using soft_deleted_user_paths
      [of bob "\<lparr>c_req = bob_request, c_res = new_response, c_db = sample_db\<rparr>" sample_env
          "''jwt:Bob Builder''" ?p ?t]
      h1 h2 h3 h5 by simp
  have "serve sample_env POST_login bob_login sample_db =
       (NextErr (NotFoundException ''User does not exists!'' USER_NOT_FOUND),
        \<lparr>c_req = bob_login, c_res = new_response, c_db = sample_db\<rparr>)"
    by (simp add: serve_def login)
  with h1 h2 h3 h4 pipeline show ?thesis
    by blast
qed

text \<open>
  Claim C2, evaluated where it fails. Bob is soft-deleted, his token verifies and his
  session row is still active: \<open>authMiddleware\<close> does not reject the request, it fills
  the request context with his id and role and calls \<open>next()\<close>.
\<close>

theorem soft_deleted_user_session_accepted:
  "bob \<in> set (users sample_db) \<and> u_delete bob
   \<and> jwt_verify sample_env ''jwt:Bob Builder'' = Inr \<lparr>p_sub = 2, p_name = ''Bob Builder'', p_role = ''USER''\<rparr>
   \<and> authMiddleware sample_env \<lparr>c_req = bob_request, c_res = new_response, c_db = sample_db\<rparr> =
       (Next,
        \<lparr>c_req = bob_request\<lparr>req_user := \<lparr>ru_id = 2, ru_role = ''USER''\<rparr>,
                             req_token := \<lparr>rt_id = 1, rt_key = ''jwt:Bob Builder''\<rparr>\<rparr>,
         c_res = new_response, c_db = sample_db\<rparr>)"
  by (simp add: authMiddleware_def bob_request_def sample_request_def sample_env_def sample_verify_def
      sample_db_def db_token_findFirst_def ann_def bob_def root_def)

section \<open>Self-demotion\<close>

text \<open>
  Claim C8, refuted as stated: Ann updates herself (route parameter 1, her own id) with
  the role \<open>ROOT\<close>, a role value other than \<open>ADMIN\<close>. \<open>updateSchema\<close> admits only \<open>USER\<close>
  and \<open>ADMIN\<close>, so \<open>parse\<close> throws before the self-demotion test: the error is the
  validation error (code 5002), not the self-demotion error (code 7001).
\<close>

theorem self_update_to_root_is_validation_error:
  "req_params_id (c_req (ann_self_update (JObj [(''role'', JStr ''ROOT'')])))
     = Some (of_int (ru_id (req_user (c_req (ann_self_update (JObj [(''role'', JStr ''ROOT'')]))))))
   \<and> field ''role'' (req_body (c_req (ann_self_update (JObj [(''role'', JStr ''ROOT'')])))) = Some (JStr ''ROOT'')
   \<and> fst (run_chain sample_env [isAdminMiddleware, errorHandler update]
             (ann_self_update (JObj [(''role'', JStr ''ROOT'')])))
       = NextErr (ValidationException [(''role'', ''Invalid option: expected one of USER|ADMIN'')])
   \<and> fst (run_chain sample_env [isAdminMiddleware, errorHandler update]
             (ann_self_update (JObj [(''role'', JStr ''ROOT'')])))
       \<noteq> NextErr (BadRequestException ''You cannot demote yourself'' SELF_DEMOTION)"
  by (simp add: ann_self_update_def ann_update_def sample_request_def isAdminMiddleware_def
      errorHandler_def update_def userByID_def db_int_arg_def db_user_findFirst_def sample_db_def
      ann_def root_body_parse to_exception_def ValidationException_def BadRequestException_def
      Let_def)

text \<open>
  Claim C8 as amended. For every update whose route parameter is exactly the acting
  administrator's own id (the number the self-demotion test compares), with the row of
  that id existing, and whose body has a \<open>role\<close> member other than \<open>ADMIN\<close>: nothing is
  written to the store; if the body passes \<open>updateSchema\<close> then the role is \<open>USER\<close> and
  the request fails with the self-demotion exception (400, code 7001), context
  untouched; if the body does not pass, the request fails with the validation exception
  carrying the schema's issues.
\<close>

theorem self_demotion_rejected:
  assumes self: "req_params_id (c_req c) = Some (of_int (ru_id (req_user (c_req c))))"
    and exists: "userByID (c_db c) (req_params_id (c_req c)) = Inr (Some existingUser)"
    and role: "field ''role'' (req_body (c_req c)) = Some v"
    and other: "v \<noteq> JStr ''ADMIN''"
  shows "c_db (snd (errorHandler update env c)) = c_db c
         \<and> (updateSchema_parse env (req_body (c_req c)) = Inr data \<longrightarrow>
              v = JStr ''USER''
              \<and> errorHandler update env c =
                  (NextErr (BadRequestException ''You cannot demote yourself'' SELF_DEMOTION), c))
         \<and> (updateSchema_parse env (req_body (c_req c)) = Inl issues \<longrightarrow>
              fst (errorHandler update env c) = NextErr (ValidationException issues))"
proof -
  have valid: "v = JStr ''USER'' \<and> errorHandler update env c =
      (NextErr (BadRequestException ''You cannot demote yourself'' SELF_DEMOTION), c)"
    if parsed: "updateSchema_parse env (req_body (c_req c)) = Inr x" for x
  proof -
    from updateSchema_role [OF parsed role] other
    have v: "v = JStr ''USER''" and r: "up_role x = Some ''USER''"
      by auto
    have "update env c = (NextErr (BadRequestException ''You cannot demote yourself'' SELF_DEMOTION), c)"
      using self exists parsed r by (simp add: update_def)
    then show ?thesis
      using v by (simp add: errorHandler_def)
  qed
  have invalid: "errorHandler update env c =
      (NextErr (ValidationException is),
       c\<lparr>c_res := status_json 400 (envelope (ValidationException is)) (c_res c)\<rparr>)"
    if failed: "updateSchema_parse env (req_body (c_req c)) = Inl is" for "is"
  proof -
    have "update env c = (Threw (ThrownZod is), c)"
      using exists failed by (simp add: update_def)
    then show ?thesis
      by (simp add: errorHandler_def to_exception_def ValidationException_def Let_def)
  qed
  have "c_db (snd (errorHandler update env c)) = c_db c"
  proof (cases "updateSchema_parse env (req_body (c_req c))")
    case (Inl "is")
    then show ?thesis by (simp add: invalid)
  next
    case (Inr x)
    then show ?thesis by (simp add: valid)
  qed
  then show ?thesis
    using valid invalid by simp
qed

text \<open>
  Ann's update of \<open>/1\<close> with the role \<open>USER\<close> is refused as a self-demotion; with the
  role \<open>ROOT\<close> it is refused by the schema; the store stays as it was.
\<close>

theorem self_demotion_rejected_witness:
  "req_params_id (c_req (ann_self_update (JObj [(''name'', JStr ''Ann Other''), (''role'', JStr ''USER'')])))
     = Some (of_int (ru_id (req_user (c_req
         (ann_self_update (JObj [(''name'', JStr ''Ann Other''), (''role'', JStr ''USER'')]))))))
   \<and> userByID sample_db (Some 1) = Inr (Some ann)
   \<and> errorHandler update sample_env
        (ann_self_update (JObj [(''name'', JStr ''Ann Other''), (''role'', JStr ''USER'')])) =
       (NextErr (BadRequestException ''You cannot demote yourself'' SELF_DEMOTION),
        ann_self_update (JObj [(''name'', JStr ''Ann Other''), (''role'', JStr ''USER'')]))
   \<and> fst (errorHandler update sample_env (ann_self_update (JObj [(''role'', JStr ''ROOT'')]))) =
       NextErr (ValidationException [(''role'', ''Invalid option: expected one of USER|ADMIN'')])
   \<and> c_db (snd (errorHandler update sample_env (ann_self_update (JObj [(''role'', JStr ''ROOT'')]))))
       = sample_db"
proof -
  let ?b = "JObj [(''name'', JStr ''Ann Other''), (''role'', JStr ''USER'')]"
  let ?b' = "JObj [(''role'', JStr ''ROOT'')]"
  have u: "userByID sample_db (Some 1) = Inr (Some ann)"
    by (simp add: userByID_def db_int_arg_def db_user_findFirst_def sample_db_def ann_def)
  have a: "errorHandler update sample_env (ann_self_update ?b) =
       (NextErr (BadRequestException ''You cannot demote yourself'' SELF_DEMOTION), ann_self_update ?b)"
    using self_demotion_rejected
      [of "ann_self_update ?b" ann "JStr ''USER''" sample_env
          "\<lparr>up_name = Some ''Ann Other'', up_email = None, up_password = None, up_role = Some ''USER''\<rparr>"]
      u user_body_parse
    by (simp add: ann_self_update_def ann_update_def sample_request_def)
  have b: "fst (errorHandler update sample_env (ann_self_update ?b')) =
       NextErr (ValidationException [(''role'', ''Invalid option: expected one of USER|ADMIN'')])
     \<and> c_db (snd (errorHandler update sample_env (ann_self_update ?b'))) = sample_db"
    using self_demotion_rejected
      [of "ann_self_update ?b'" ann "JStr ''ROOT''" sample_env _
          "[(''role'', ''Invalid option: expected one of USER|ADMIN'')]"]
      u root_body_parse
    by (simp add: ann_self_update_def ann_update_def sample_request_def)
  have s: "req_params_id (c_req (ann_self_update ?b))
      = Some (of_int (ru_id (req_user (c_req (ann_self_update ?b)))))"
    by (simp add: ann_self_update_def ann_update_def sample_request_def)
  show ?thesis
    using s u a b by blast
qed

text \<open>
  The self-demotion test and the write are keyed differently. With the route parameter
  \<open>1.5\<close> the test \<open>req.user.id === targetId\<close> is false, the store selects row 1 for the
  lookup, and \<open>userUpdate\<close> rewrites the row of \<open>existingUser.id\<close>: Ann's own row gets the
  role \<open>USER\<close> and the request is answered with 200.
\<close>

lemma update_fractional_id_passes_guard:
  "fst (errorHandler update sample_env (ann_update (Some (3 / 2)) (JObj [(''role'', JStr ''USER'')])))
     = Ended
   \<and> res_status (c_res (snd (errorHandler update sample_env
        (ann_update (Some (3 / 2)) (JObj [(''role'', JStr ''USER'')]))))) = 200
   \<and> users (c_db (snd (errorHandler update sample_env
        (ann_update (Some (3 / 2)) (JObj [(''role'', JStr ''USER'')])))))
     = [ann\<lparr>u_role := ''USER''\<rparr>, bob, root]"
  by (simp add: errorHandler_def update_def ann_update_def sample_request_def userByID_def
      db_int_arg_def db_user_findFirst_def sample_db_def ann_def bob_def root_def
      updateSchema_parse_def z_optional_def z_enum_role_def issues_of_def userUpdate_def
      db_user_update_def status_json_def headersSent_def new_response_def Let_def
      floor_three_halves)

section \<open>Session rows are never deactivated\<close>

text \<open>
  Claim C10. In every store reachable by serving requests, every row of the token table
  has \<open>active = true\<close>. Serving any request leaves each row either as it was or gone,
  and may add rows that are active: no row is ever rewritten. Only the login route adds
  rows and only the logout route removes them.
\<close>

theorem session_rows_always_active:
  "(reachable d \<longrightarrow> (\<forall>t \<in> set (tokens d). t_active t))
   \<and> (\<forall>t \<in> set (tokens (c_db (snd (serve env rt rq d0)))). t \<in> set (tokens d0) \<or> t_active t)
   \<and> (rt \<noteq> POST_login \<longrightarrow> set (tokens (c_db (snd (serve env rt rq d0)))) \<subseteq> set (tokens d0))
   \<and> (rt \<noteq> POST_logout \<longrightarrow> set (tokens d0) \<subseteq> set (tokens (c_db (snd (serve env rt rq d0)))))"
proof (intro conjI impI)
  assume "reachable d"
  then show "\<forall>t \<in> set (tokens d). t_active t"
  proof (induction rule: reachable.induct)
    case (initial d)
    then show ?case by simp
  next
    case (request d d' env rt rq)
    then show ?case
      using serve_rows by blast
  qed
next
  show "\<forall>t \<in> set (tokens (c_db (snd (serve env rt rq d0)))). t \<in> set (tokens d0) \<or> t_active t"
    using serve_rows by blast
next
  assume "rt \<noteq> POST_login"
  then show "set (tokens (c_db (snd (serve env rt rq d0)))) \<subseteq> set (tokens d0)"
    by (rule serve_creates_only_in_login)
next
  assume "rt \<noteq> POST_logout"
  then show "set (tokens d0) \<subseteq> set (tokens (c_db (snd (serve env rt rq d0))))"
    by (rule serve_deletes_only_in_logout)
qed

theorem session_rows_always_active_witness:
  "reachable (sample_db\<lparr>tokens := [\<lparr>t_id = 2, t_key = ''jwt:Ann Admin'', t_userId = 1, t_active = True\<rparr>],
                        next_token_id := 3\<rparr>)
   \<and> list_all t_active
         (tokens (sample_db\<lparr>tokens := [\<lparr>t_id = 2, t_key = ''jwt:Ann Admin'', t_userId = 1,
                                           t_active = True\<rparr>],
                               next_token_id := 3\<rparr>))
   \<and> POST_logout \<noteq> POST_login
   \<and> set (tokens (c_db (snd (serve sample_env POST_logout bob_request sample_db))))
       \<subseteq> set (tokens sample_db)
   \<and> set (tokens sample_db)
       \<subseteq> set (tokens (c_db (snd (serve sample_env POST_login ann_login sample_db))))"
proof -
  have init: "reachable (sample_db\<lparr>tokens := []\<rparr>)"
    by (rule reachable.initial) simp
  have r: "reachable (sample_db\<lparr>tokens := [\<lparr>t_id = 2, t_key = ''jwt:Ann Admin'', t_userId = 1,
                                                t_active = True\<rparr>],
                                    next_token_id := 3\<rparr>)"
    using reachable.request [OF init, of _ sample_env POST_login ann_login]
    by (simp add: ann_login_served)
  show ?thesis
    using r
      session_rows_always_active
        [of "sample_db\<lparr>tokens := [\<lparr>t_id = 2, t_key = ''jwt:Ann Admin'', t_userId = 1, t_active = True\<rparr>],
                       next_token_id := 3\<rparr>" sample_env POST_logout bob_request sample_db]
      session_rows_always_active
        [of "sample_db\<lparr>tokens := []\<rparr>" sample_env POST_login ann_login sample_db]
    by (simp add: list_all_iff)
qed

end
